theory Spec2Isabelle
  imports Complex_Main "HOL-Library.Char_ord" "HOL-Library.List_Lexorder"
    "HOL-Library.Product_Lexorder"
begin

section \<open>Python values shared by the modules\<close>

text \<open>
  Exceptions are values. The classes are the ones of \<^verbatim>\<open>core/utils/error_handler.py\<close>
  and the built-in ones the modelled code raises or catches by name; every one of them
  derives from Python's \<^verbatim>\<open>Exception\<close>. Interpreter signals that derive from
  \<^verbatim>\<open>BaseException\<close> only (keyboard interrupt, system exit) are not raised by any
  modelled statement and are not part of the model.
\<close>

datatype exc_class =
    Exception
  | SpatiaEngineError
  | ConfigurationError
  | DataSourceError
  | ProcessingError
  | AOIError
  | ValidationError
  | ValueError
  | AttributeError
  | FileNotFoundError
  | OSError
  | LookupError
  | KeyError
  | IndexError
  | RuntimeError

text \<open>The direct base class of each class, as the class statements declare it.\<close>

fun base_class :: "exc_class \<Rightarrow> exc_class option" where
  "base_class Exception = None"
| "base_class SpatiaEngineError = Some Exception"
| "base_class ConfigurationError = Some SpatiaEngineError"
| "base_class DataSourceError = Some SpatiaEngineError"
| "base_class ProcessingError = Some SpatiaEngineError"
| "base_class AOIError = Some SpatiaEngineError"
| "base_class ValidationError = Some SpatiaEngineError"
| "base_class ValueError = Some Exception"
| "base_class AttributeError = Some Exception"
| "base_class FileNotFoundError = Some OSError"
| "base_class OSError = Some Exception"
| "base_class LookupError = Some Exception"
| "base_class KeyError = Some LookupError"
| "base_class IndexError = Some LookupError"
| "base_class RuntimeError = Some Exception"

text \<open>\<^verbatim>\<open>issubclass\<close>: the hierarchy is at most three levels deep.\<close>

definition issubclass :: "exc_class \<Rightarrow> exc_class \<Rightarrow> bool" where
  "issubclass c d =
     (c = d \<or>
      (case base_class c of
         None \<Rightarrow> False
       | Some b \<Rightarrow>
           b = d \<or>
           (case base_class b of
              None \<Rightarrow> False
            | Some b' \<Rightarrow> b' = d \<or> base_class b' = Some d)))"

text \<open>A raised exception: its class and its message.\<close>

type_synonym py_exception = "exc_class \<times> string"

definition isinstance :: "py_exception \<Rightarrow> exc_class \<Rightarrow> bool" where
  "isinstance e c = issubclass (fst e) c"

text \<open>The outcome of a call: \<open>Inl\<close> an exception that propagates, \<open>Inr\<close> the value returned.\<close>

type_synonym 'a result = "py_exception + 'a"

section \<open>The error-handling decorator (\<^verbatim>\<open>core/utils/error_handler.py\<close>)\<close>

text \<open>
  \<^verbatim>\<open>handle_errors(error_type, default_return)\<close> wraps a function: the first
  \<^verbatim>\<open>except\<close> clause catches instances of \<^verbatim>\<open>error_type\<close>, the second every other
  \<^verbatim>\<open>Exception\<close>; both return \<^verbatim>\<open>default_return\<close>. The log lines are not modelled.
  The wrapped call is given by its outcome.
\<close>

definition handle_errors :: "exc_class \<Rightarrow> 'a \<Rightarrow> 'a result \<Rightarrow> 'a result" where
  "handle_errors error_type default_return call =
     (case call of
        Inr v \<Rightarrow> Inr v
      | Inl e \<Rightarrow>
          if isinstance e error_type then Inr default_return
          else if isinstance e Exception then Inr default_return
          else Inl e)"

section \<open>Zone selection (\<^verbatim>\<open>Aoi.get_mtm_zone_from_bounds\<close>, \<^verbatim>\<open>core/aoi/aoi.py\<close>)\<close>

text \<open>
  Bounds are \<^verbatim>\<open>(minx, miny, maxx, maxy)\<close>. Coordinates are modelled as real numbers:
  the comparisons against the integral band edges are exact in the source as well, and
  only the rounding of the centre's own computation is idealised.
\<close>

type_synonym bounds = "real \<times> real \<times> real \<times> real"

definition center_lon :: "bounds \<Rightarrow> real" where
  "center_lon b = (case b of (b0, b1, b2, b3) \<Rightarrow> (b0 + b2) / 2)"

definition center_lat :: "bounds \<Rightarrow> real" where
  "center_lat b = (case b of (b0, b1, b2, b3) \<Rightarrow> (b1 + b3) / 2)"

text \<open>The dictionary \<^verbatim>\<open>VALID_MTM_CRS\<close>, in its order of declaration.\<close>

definition VALID_MTM_CRS :: "(string \<times> string) list" where
  "VALID_MTM_CRS =
     [(''32181'', ''MTM zone 1 (EPSG:32181)''),
      (''32182'', ''MTM zone 2 (EPSG:32182)''),
      (''32183'', ''MTM zone 3 (EPSG:32183)''),
      (''32184'', ''MTM zone 4 (EPSG:32184)''),
      (''32185'', ''MTM zone 5 (EPSG:32185)''),
      (''32186'', ''MTM zone 6 (EPSG:32186)''),
      (''32187'', ''MTM zone 7 (EPSG:32187)''),
      (''32188'', ''MTM zone 8 (EPSG:32188)''),
      (''32189'', ''MTM zone 9 (EPSG:32189)''),
      (''32190'', ''MTM zone 10 (EPSG:32190)'')]"

definition get_mtm_zone_from_bounds :: "bounds \<Rightarrow> string" where
  "get_mtm_zone_from_bounds b =
     (let center_lon = center_lon b;
          center_lat = center_lat b
      in if - 72 \<le> center_lon \<and> center_lon < - 69 then ''32187''
         else if - 75 \<le> center_lon \<and> center_lon < - 72 then ''32188''
         else if - 78 \<le> center_lon \<and> center_lon < - 75 then ''32189''
         else if - 81 \<le> center_lon \<and> center_lon < - 78 then ''32190''
         else ''32188'')"

text \<open>
  The band table the specification speaks of, east to west: lower edge (inclusive), upper
  edge (exclusive) and zone; and the default zone. This is the specification's side of
  the comparison; the function above is the source's.
\<close>

definition mtm_bands :: "(real \<times> real \<times> string) list" where
  "mtm_bands =
     [(- 72, - 69, ''32187''),
      (- 75, - 72, ''32188''),
      (- 78, - 75, ''32189''),
      (- 81, - 78, ''32190'')]"

definition default_zone :: string where
  "default_zone = ''32188''"

definition in_band :: "real \<Rightarrow> real \<times> real \<times> string \<Rightarrow> bool" where
  "in_band c band = (case band of (lo, hi, z) \<Rightarrow> lo \<le> c \<and> c < hi)"

definition band_zone :: "real \<times> real \<times> string \<Rightarrow> string" where
  "band_zone band = (case band of (lo, hi, z) \<Rightarrow> z)"



section \<open>Python strings\<close>

text \<open>
  Two kinds of strings. Paths, URLs, names and the identifiers of reference systems are
  lists of 8-bit characters: the program joins and compares them and never counts their
  characters. The identifiers of reference systems come from the reference library and
  from zone selection and are ASCII; \<open>upper\<close> and \<open>isdigit\<close> below are Python's
  methods on such identifiers.
\<close>

definition ascii_lowercase :: string where
  "ascii_lowercase = ''abcdefghijklmnopqrstuvwxyz''"

definition ascii_uppercase :: string where
  "ascii_uppercase = ''ABCDEFGHIJKLMNOPQRSTUVWXYZ''"

definition is_digit :: "char \<Rightarrow> bool" where
  "is_digit c = (c \<in> set ''0123456789'')"

definition char_upper :: "char \<Rightarrow> char" where
  "char_upper c =
     (case map_of (zip ascii_lowercase ascii_uppercase) c of None \<Rightarrow> c | Some u \<Rightarrow> u)"

definition upper :: "string \<Rightarrow> string" where
  "upper s = map char_upper s"

text \<open>\<^verbatim>\<open>s.isdigit()\<close>: false on the empty string.\<close>

definition isdigit :: "string \<Rightarrow> bool" where
  "isdigit s = (s \<noteq> [] \<and> list_all is_digit s)"

text \<open>
  The tile codes given by the user and the codes of the tile index are texts whose
  characters the program counts and classifies: they are lists of Unicode code points.
  \<open>ustring_of\<close> reads a literal of the source as such a text.
\<close>

type_synonym ustring = "nat list"

definition ustring_of :: "string \<Rightarrow> ustring" where
  "ustring_of s = map of_char s"

text \<open>
  Python's tables of case mappings and character classes are data of the interpreter.
  They are a parameter here, and nothing is assumed of them: \<open>uc_upper\<close> is the
  upper-case form of one character, which may be several characters (the sharp s gives
  two), \<open>uc_isdigit\<close> and \<open>uc_isalpha\<close> are the classes behind \<^verbatim>\<open>isdigit\<close> and
  \<^verbatim>\<open>isalpha\<close>.
\<close>

record unicode_tables =
  uc_upper :: "nat \<Rightarrow> ustring"
  uc_isdigit :: "nat \<Rightarrow> bool"
  uc_isalpha :: "nat \<Rightarrow> bool"

text \<open>
  \<^verbatim>\<open>s.upper()\<close> maps every character on its own, so the result can be longer than
  \<^verbatim>\<open>s\<close>; \<^verbatim>\<open>s.isdigit()\<close> is false on the empty text.
\<close>

definition str_upper :: "unicode_tables \<Rightarrow> ustring \<Rightarrow> ustring" where
  "str_upper u s = concat (map (uc_upper u) s)"

definition str_isdigit :: "unicode_tables \<Rightarrow> ustring \<Rightarrow> bool" where
  "str_isdigit u s = (s \<noteq> [] \<and> list_all (uc_isdigit u) s)"

text \<open>\<^verbatim>\<open>s[i:j]\<close> for indices that are not negative, and \<^verbatim>\<open>s[-2:]\<close>.\<close>

definition slice :: "nat \<Rightarrow> nat \<Rightarrow> 'a list \<Rightarrow> 'a list" where
  "slice i j s = take (j - i) (drop i s)"

definition last_two :: "'a list \<Rightarrow> 'a list" where
  "last_two s = drop (length s - 2) s"

definition startswith :: "'a list \<Rightarrow> 'a list \<Rightarrow> bool" where
  "startswith s p = (take (length p) s = p)"

text \<open>\<^verbatim>\<open>sub in s\<close> for strings.\<close>

fun contains :: "string \<Rightarrow> string \<Rightarrow> bool" where
  "contains sub [] = (sub = [])"
| "contains sub (c # cs) = (startswith (c # cs) sub \<or> contains sub cs)"

text \<open>Truth value of an optional string: \<^verbatim>\<open>None\<close> and the empty string are false.\<close>

definition truthy :: "string option \<Rightarrow> bool" where
  "truthy s = (case s of None \<Rightarrow> False | Some v \<Rightarrow> v \<noteq> [])"

section \<open>Tile codes (\<^verbatim>\<open>core/aoi/aoi.py\<close>)\<close>

text \<open>The literal list of suffixes in \<^verbatim>\<open>_is_code_20k\<close>.\<close>

definition suffixes_20k :: "ustring list" where
  "suffixes_20k = map ustring_of [''NE'', ''NO'', ''SE'', ''SO'', ''NW'', ''SW'']"

text \<open>
  \<^verbatim>\<open>Aoi._is_code_20k\<close>. The indexing \<^verbatim>\<open>prefix[2]\<close> and \<^verbatim>\<open>prefix[3]\<close> is guarded by the
  test of the prefix length that precedes it in the same conjunction.
\<close>

definition is_code_20k :: "unicode_tables \<Rightarrow> ustring \<Rightarrow> bool" where
  "is_code_20k u code =
     (let code_upper = str_upper u code in
      if length code_upper \<in> set [7, 8] \<and> last_two code_upper \<in> set suffixes_20k then
        (let prefix_len = length code_upper - 2;
             pfx = take prefix_len code_upper
         in if (prefix_len = 5 \<and> str_isdigit u (slice 0 2 pfx) \<and> uc_isalpha u (pfx ! 2)
                  \<and> str_isdigit u (slice 3 5 pfx))
               \<or> (prefix_len = 6 \<and> str_isdigit u (slice 0 3 pfx) \<and> uc_isalpha u (pfx ! 3)
                  \<and> str_isdigit u (slice 4 6 pfx))
            then True else False)
      else False)"

text \<open>\<^verbatim>\<open>Aoi._normalize_50k_code_for_20k_index\<close>.\<close>

definition normalize_50k_code_for_20k_index :: "unicode_tables \<Rightarrow> ustring \<Rightarrow> ustring" where
  "normalize_50k_code_for_20k_index u code_50k =
     (let code_upper = str_upper u code_50k in
      if length code_upper = 6 \<and> startswith code_upper (ustring_of ''0'') then drop 1 code_upper
      else code_upper)"

text \<open>
  The specification's grammar of a parent code, for comparison: two or three digits, a
  letter, two digits.
\<close>

fun valid_parent_prefix :: "unicode_tables \<Rightarrow> ustring \<Rightarrow> bool" where
  "valid_parent_prefix u [d1, d2, a, d3, d4] =
     (uc_isdigit u d1 \<and> uc_isdigit u d2 \<and> uc_isalpha u a \<and> uc_isdigit u d3
      \<and> uc_isdigit u d4)"
| "valid_parent_prefix u [d0, d1, d2, a, d3, d4] =
     (uc_isdigit u d0 \<and> uc_isdigit u d1 \<and> uc_isdigit u d2 \<and> uc_isalpha u a
      \<and> uc_isdigit u d3 \<and> uc_isdigit u d4)"
| "valid_parent_prefix u _ = False"

text \<open>
  The specification's reading of a child code over a set of suffixes: in upper case, the
  code has length 7 or 8 and is a valid parent prefix followed by one of the suffixes.
\<close>

definition child_code_over :: "unicode_tables \<Rightarrow> ustring set \<Rightarrow> ustring \<Rightarrow> bool" where
  "child_code_over u S code =
     (length (str_upper u code) \<in> {7, 8} \<and>
      (\<exists>p s. str_upper u code = p @ s \<and> s \<in> S \<and> valid_parent_prefix u p))"


section \<open>Geometries and data frames\<close>

text \<open>
  The geometry kernels are external. A geometry is known to the program through its
  \<^verbatim>\<open>is_empty\<close> and \<^verbatim>\<open>is_valid\<close> attributes only; \<open>geom_id\<close> tells shapes apart.
\<close>

record geometry =
  geom_id :: nat
  is_empty :: bool
  is_valid :: bool

text \<open>
  A \<^verbatim>\<open>GeoDataFrame\<close>: its reference system (\<^verbatim>\<open>None\<close> when undeclared), its column names
  and the geometry cell of each row (\<^verbatim>\<open>None\<close> for a missing geometry).
\<close>

record gdf =
  crs :: "string option"
  columns :: "string list"
  geometries :: "geometry option list"

text \<open>\<^verbatim>\<open>len(gdf)\<close>, and pandas' \<^verbatim>\<open>gdf.empty\<close>: some axis has length zero.\<close>

definition gdf_len :: "gdf \<Rightarrow> int" where
  "gdf_len g = int (length (geometries g))"

definition gdf_empty :: "gdf \<Rightarrow> bool" where
  "gdf_empty g = (geometries g = [] \<or> columns g = [])"

text \<open>
  A row of the fine-grained tile index (layer \<^verbatim>\<open>QC_index_url_snrc_mnt\<close>) with the two
  attribute columns the program reads, \<^verbatim>\<open>feuillet\<close> and \<^verbatim>\<open>lidar_url\<close>; and a frame of
  such rows. The cells of both columns are strings: a code is kept as its code points, a
  URL as its bytes.
\<close>

record tile_row =
  feuillet :: ustring
  lidar_url :: string
  tile_geometry :: "geometry option"

record tile_gdf =
  tile_crs :: "string option"
  tile_rows :: "tile_row list"

definition tile_gdf_empty :: "tile_gdf \<Rightarrow> bool" where
  "tile_gdf_empty g = (tile_rows g = [])"

text \<open>\<^verbatim>\<open>frame.iloc[[i]].copy()\<close> for every row: one frame per row, with the frame's crs.\<close>

definition single_row_frames :: "string option \<Rightarrow> tile_row list \<Rightarrow> tile_gdf list" where
  "single_row_frames c rows = map (\<lambda>r. \<lparr>tile_crs = c, tile_rows = [r]\<rparr>) rows"

section \<open>The area of interest (\<^verbatim>\<open>core/aoi/aoi.py\<close>)\<close>

text \<open>
  What the AOI module calls outside itself, each call given by its outcome:
  \<^item> \<open>unicode\<close> is the interpreter's tables for the string methods on texts;
  \<^item> \<open>crs_to_epsg x\<close> is \<^verbatim>\<open>str(CRS(x).to_epsg())\<close>, and \<open>None\<close> when \<^verbatim>\<open>CRS(x)\<close> raises
    or \<^verbatim>\<open>to_epsg()\<close> returns \<^verbatim>\<open>None\<close> (the program treats both alike);
  \<^item> \<open>read_index\<close> is \<^verbatim>\<open>geopandas.read_file\<close> of the fine-grained index layer;
  \<^item> \<open>index_to_crs\<close>, \<open>gdf_to_crs\<close>, \<open>geometry_to_crs\<close> are the reprojections;
  \<^item> \<open>get_mnt_20k_subfeuillet_data_gdal\<close> and \<open>get_kml_bounds\<close> are the helpers of
    \<^verbatim>\<open>aoi_handler.py\<close>, whose bodies are GDAL and geopandas calls and whose decorator
    makes them return \<^verbatim>\<open>None\<close> on every error;
  \<^item> \<open>unary_union\<close>, \<open>total_bounds\<close>, \<open>total_bounds_4326\<close> (the bounds after
    reprojection to EPSG:4326) and \<open>intersecting_rows\<close> (the rows selected by
    \<^verbatim>\<open>index.intersects(geom)\<close>) are the geometry engine's.
\<close>

record aoi_env =
  unicode :: unicode_tables
  crs_to_epsg :: "string \<Rightarrow> string option"
  path_exists :: "string \<Rightarrow> bool"
  read_index :: "tile_gdf result"
  index_to_crs :: "tile_gdf \<Rightarrow> string \<Rightarrow> tile_gdf result"
  get_mnt_20k_subfeuillet_data_gdal :: "ustring \<Rightarrow> string \<Rightarrow> tile_gdf option"
  unary_union :: "geometry list \<Rightarrow> geometry option result"
  total_bounds_4326 :: "gdf \<Rightarrow> bounds result"
  get_kml_bounds :: "string \<Rightarrow> string \<Rightarrow> gdf option"
  total_bounds :: "gdf \<Rightarrow> bounds result"
  geometry_to_crs :: "geometry \<Rightarrow> string option \<Rightarrow> geometry result"
  intersecting_rows :: "tile_gdf \<Rightarrow> geometry \<Rightarrow> tile_row list result"
  gdf_to_crs :: "gdf \<Rightarrow> string \<Rightarrow> gdf result"

text \<open>
  The attributes of an \<^verbatim>\<open>Aoi\<close> object. An input reference is a tile code in upper case
  or the path of the boundary file.
\<close>

datatype reference = CodeRef ustring | PathRef string

record aoi =
  definition_type :: "string option"
  input_references :: "reference list"
  combined_gdf_epsg4326 :: "gdf option"
  combined_geometry_epsg4326 :: "geometry option"
  bounds_epsg4326 :: "bounds option"
  use_custom_crs :: bool
  target_mtm_crs :: "string option"
  combined_geometry_mtm :: "geometry option"
  subfeuillet_20k_data_gdfs :: "tile_gdf list"

text \<open>\<^verbatim>\<open>Aoi.is_valid_mtm_crs\<close>.\<close>

definition is_valid_mtm_crs :: "aoi_env \<Rightarrow> string \<Rightarrow> bool" where
  "is_valid_mtm_crs env c =
     (case crs_to_epsg env c of
        None \<Rightarrow> False
      | Some epsg_code \<Rightarrow> map_of VALID_MTM_CRS epsg_code \<noteq> None)"

text \<open>\<^verbatim>\<open>Aoi.__init__\<close>.\<close>

definition aoi_init :: "aoi_env \<Rightarrow> string option \<Rightarrow> aoi" where
  "aoi_init env custom_crs =
     (let self = \<lparr>definition_type = None, input_references = [],
                  combined_gdf_epsg4326 = None, combined_geometry_epsg4326 = None,
                  bounds_epsg4326 = None, use_custom_crs = False, target_mtm_crs = None,
                  combined_geometry_mtm = None, subfeuillet_20k_data_gdfs = []\<rparr>
      in case custom_crs of
           None \<Rightarrow> self
         | Some c \<Rightarrow>
             if c \<noteq> [] \<and> is_valid_mtm_crs env c
             then self\<lparr>target_mtm_crs := crs_to_epsg env c, use_custom_crs := True\<rparr>
             else self)"

text \<open>
  \<^verbatim>\<open>Aoi._finalize_definition\<close>, its last \<^verbatim>\<open>try\<close> block first: the reprojection to the
  target reference. \<^verbatim>\<open>iloc[0]\<close> on a frame without rows raises, and the \<^verbatim>\<open>except\<close>
  clause returns \<^verbatim>\<open>False\<close>.
\<close>

definition finalize_reproject :: "aoi_env \<Rightarrow> aoi \<Rightarrow> string \<Rightarrow> bool \<times> aoi" where
  "finalize_reproject env self target =
     (case combined_gdf_epsg4326 self of
        None \<Rightarrow> (False, self)
      | Some g \<Rightarrow>
          (case crs g of
             None \<Rightarrow> (False, self)
           | Some c \<Rightarrow>
               if upper c = upper target then
                 (case geometries g of
                    [] \<Rightarrow> (False, self)
                  | geom # _ \<Rightarrow> (True, self\<lparr>combined_geometry_mtm := geom\<rparr>))
               else
                 (case gdf_to_crs env g target of
                    Inl e \<Rightarrow> (False, self)
                  | Inr gdf_mtm \<Rightarrow>
                      if \<not> gdf_empty gdf_mtm then
                        (case geometries gdf_mtm of
                           [] \<Rightarrow> (False, self)
                         | None # _ \<Rightarrow> (False, self)
                         | Some geom_mtm # _ \<Rightarrow>
                             if is_empty geom_mtm then (False, self)
                             else (True, self\<lparr>combined_geometry_mtm := Some geom_mtm\<rparr>))
                      else (False, self))))"

text \<open>
  The whole of \<^verbatim>\<open>_finalize_definition\<close>: the check of a custom reference, the automatic
  zone, the normalisation of the identifier with its fallback, and the reprojection.
\<close>

definition finalize_definition :: "aoi_env \<Rightarrow> aoi \<Rightarrow> bool \<times> aoi" where
  "finalize_definition env self =
     (case (combined_gdf_epsg4326 self, bounds_epsg4326 self) of
        (Some g, Some b) \<Rightarrow>
          (let self1 =
                 (case target_mtm_crs self of
                    Some t \<Rightarrow>
                      if use_custom_crs self \<and> t \<noteq> [] \<and> \<not> is_valid_mtm_crs env t
                      then self\<lparr>use_custom_crs := False, target_mtm_crs := None\<rparr>
                      else self
                  | None \<Rightarrow> self);
               self2 =
                 (if \<not> truthy (target_mtm_crs self1)
                  then self1\<lparr>target_mtm_crs := Some (get_mtm_zone_from_bounds b)\<rparr>
                  else self1)
           in case target_mtm_crs self2 of
                None \<Rightarrow> (False, self2)
              | Some t \<Rightarrow>
                  if t = [] then (False, self2)
                  else
                    (let t1 = (if isdigit t then ''EPSG:'' @ t else t);
                         t2 = (case crs_to_epsg env t1 of
                                 Some epsg_code \<Rightarrow> ''EPSG:'' @ epsg_code
                               | None \<Rightarrow> ''EPSG:'' @ get_mtm_zone_from_bounds b)
                     in finalize_reproject env (self2\<lparr>target_mtm_crs := Some t2\<rparr>) t2))
      | _ \<Rightarrow> (False, self))"

text \<open>
  The tile index as \<^verbatim>\<open>define_from_snrc_codes\<close> prepares it for a parent code: read,
  then given the common reference or reprojected to it.
\<close>

definition common_crs_for_union :: string where
  "common_crs_for_union = ''EPSG:32198''"

definition load_index_for_union :: "aoi_env \<Rightarrow> tile_gdf result" where
  "load_index_for_union env =
     (case read_index env of
        Inl e \<Rightarrow> Inl e
      | Inr index_mnt_gdf_full \<Rightarrow>
          (case tile_crs index_mnt_gdf_full of
             None \<Rightarrow> Inr (index_mnt_gdf_full\<lparr>tile_crs := Some common_crs_for_union\<rparr>)
           | Some c \<Rightarrow>
               if upper c \<noteq> upper common_crs_for_union
               then index_to_crs env index_mnt_gdf_full common_crs_for_union
               else Inr index_mnt_gdf_full))"

text \<open>The boolean mask over the index rows (lines 196 to 200).\<close>

definition filter_20k_tiles :: "unicode_tables \<Rightarrow> tile_gdf \<Rightarrow> ustring \<Rightarrow> tile_row list" where
  "filter_20k_tiles u index_mnt_gdf_full normalized_50k_prefix =
     (let target_prefix_len = length normalized_50k_prefix in
      filter (\<lambda>r. startswith (str_upper u (feuillet r)) normalized_50k_prefix
                   \<and> length (feuillet r) = target_prefix_len + 2)
        (tile_rows index_mnt_gdf_full))"

text \<open>
  One turn of the loop over the input references: the frames the code adds to
  \<^verbatim>\<open>collected_20k_gdfs\<close>. An error while reading or filtering the index is logged and
  the turn adds nothing.
\<close>

definition resolve_20k_code :: "aoi_env \<Rightarrow> ustring \<Rightarrow> tile_gdf list" where
  "resolve_20k_code env code_input =
     (case get_mnt_20k_subfeuillet_data_gdal env code_input common_crs_for_union of
        None \<Rightarrow> []
      | Some gdf_20k \<Rightarrow> if \<not> tile_gdf_empty gdf_20k then [gdf_20k] else [])"

definition resolve_50k_code :: "aoi_env \<Rightarrow> ustring \<Rightarrow> tile_gdf list" where
  "resolve_50k_code env code_input =
     (let normalized_50k_prefix =
            normalize_50k_code_for_20k_index (unicode env) code_input in
      case load_index_for_union env of
        Inl e_index_read \<Rightarrow> []
      | Inr index_mnt_gdf_full \<Rightarrow>
          single_row_frames (tile_crs index_mnt_gdf_full)
            (filter_20k_tiles (unicode env) index_mnt_gdf_full normalized_50k_prefix))"

definition resolve_code :: "aoi_env \<Rightarrow> ustring \<Rightarrow> tile_gdf list" where
  "resolve_code env code_input_orig =
     (let code_input = str_upper (unicode env) code_input_orig in
      if is_code_20k (unicode env) code_input then resolve_20k_code env code_input
      else resolve_50k_code env code_input)"

fun collect_20k_gdfs :: "aoi_env \<Rightarrow> ustring list \<Rightarrow> tile_gdf list \<Rightarrow> tile_gdf list" where
  "collect_20k_gdfs env [] collected = collected"
| "collect_20k_gdfs env (code # codes) collected =
     collect_20k_gdfs env codes (collected @ resolve_code env code)"

text \<open>
  An element of the list of codes as the configuration delivers it: the pipeline checks
  only that the input is a non-empty list, so an element need not be a string.
\<close>

datatype py_value = PyStr ustring | PyInt int | PyNone

text \<open>\<^verbatim>\<open>[c.upper() for c in snrc_codes_input]\<close>: a value without \<^verbatim>\<open>upper\<close> raises.\<close>

fun upper_all :: "unicode_tables \<Rightarrow> py_value list \<Rightarrow> ustring list result" where
  "upper_all u [] = Inr []"
| "upper_all u (PyStr c # cs) =
     (case upper_all u cs of Inl e \<Rightarrow> Inl e | Inr us \<Rightarrow> Inr (str_upper u c # us))"
| "upper_all u (_ # cs) = Inl (AttributeError, ''object has no attribute upper'')"

text \<open>The geometries kept for the union (line 225).\<close>

definition geoms_for_union :: "tile_gdf list \<Rightarrow> geometry list" where
  "geoms_for_union collected =
     concat (map (\<lambda>g. case tile_rows g of
                         [] \<Rightarrow> []
                       | r # _ \<Rightarrow> (case tile_geometry r of None \<Rightarrow> [] | Some x \<Rightarrow> [x]))
               collected)"

text \<open>\<^verbatim>\<open>Aoi.define_from_snrc_codes\<close>: the function as written, then as decorated.\<close>

definition define_from_snrc_codes_body ::
    "aoi_env \<Rightarrow> aoi \<Rightarrow> py_value list \<Rightarrow> bool result \<times> aoi" where
  "define_from_snrc_codes_body env self snrc_codes_input =
     (if snrc_codes_input = [] then (Inr False, self)
      else
        (let self1 = self\<lparr>definition_type := Some ''SNRC''\<rparr> in
         case upper_all (unicode env) snrc_codes_input of
           Inl e \<Rightarrow> (Inl e, self1)
         | Inr refs \<Rightarrow>
             (let self2 = self1\<lparr>input_references := map CodeRef refs\<rparr>;
                  collected_20k_gdfs = collect_20k_gdfs env refs []
              in if collected_20k_gdfs = [] then (Inr False, self2)
                 else
                   (let self3 = self2\<lparr>subfeuillet_20k_data_gdfs := collected_20k_gdfs\<rparr>;
                        geoms = geoms_for_union collected_20k_gdfs
                    in if geoms = [] then (Inr False, self3)
                       else
                         (case unary_union env geoms of
                            Inl e \<Rightarrow> (Inr False, self3)
                          | Inr None \<Rightarrow> (Inr False, self3)
                          | Inr (Some unified_20k_geometry) \<Rightarrow>
                              if is_empty unified_20k_geometry then (Inr False, self3)
                              else
                                (let g = \<lparr>crs = Some common_crs_for_union,
                                          columns = [''id'', ''description'', ''geometry''],
                                          geometries = [Some unified_20k_geometry]\<rparr>;
                                     self4 = self3\<lparr>combined_gdf_epsg4326 := Some g\<rparr>
                                 in case total_bounds_4326 env g of
                                      Inl e \<Rightarrow> (Inr False, self4)
                                    | Inr b \<Rightarrow>
                                        (case finalize_definition env
                                                (self4\<lparr>bounds_epsg4326 := Some b\<rparr>) of
                                           (ok, self5) \<Rightarrow> (Inr ok, self5))))))))"

definition define_from_snrc_codes ::
    "aoi_env \<Rightarrow> aoi \<Rightarrow> py_value list \<Rightarrow> bool result \<times> aoi" where
  "define_from_snrc_codes env self snrc_codes_input =
     (case define_from_snrc_codes_body env self snrc_codes_input of
        (r, self') \<Rightarrow> (handle_errors AOIError False r, self'))"

text \<open>
  The best-effort search of the tiles that intersect a boundary-file AOI (lines 281 to
  294): every error is logged and leaves the manifest as it was.
\<close>

definition kml_subfeuillets :: "aoi_env \<Rightarrow> aoi \<Rightarrow> geometry \<Rightarrow> aoi" where
  "kml_subfeuillets env self geom =
     (case read_index env of
        Inl e \<Rightarrow> self
      | Inr index_read \<Rightarrow>
          (let index_mnt_gdf =
                 (if tile_crs index_read = None
                  then index_read\<lparr>tile_crs := Some ''EPSG:32198''\<rparr> else index_read)
           in case geometry_to_crs env geom (tile_crs index_mnt_gdf) of
                Inl e \<Rightarrow> self
              | Inr kml_geom_reproj \<Rightarrow>
                  (case intersecting_rows env index_mnt_gdf kml_geom_reproj of
                     Inl e \<Rightarrow> self
                   | Inr rows \<Rightarrow>
                       if rows \<noteq> []
                       then self\<lparr>subfeuillet_20k_data_gdfs :=
                                   single_row_frames (tile_crs index_mnt_gdf) rows\<rparr>
                       else self)))"

text \<open>\<^verbatim>\<open>Aoi.define_from_kml_file\<close>: the function as written, then as decorated.\<close>

definition define_from_kml_file_body :: "aoi_env \<Rightarrow> aoi \<Rightarrow> string \<Rightarrow> bool result \<times> aoi" where
  "define_from_kml_file_body env self kml_filepath =
     (if kml_filepath = [] \<or> \<not> path_exists env kml_filepath then (Inr False, self)
      else
        (let self1 = self\<lparr>definition_type := Some ''KML'', input_references := [PathRef kml_filepath]\<rparr>
         in case get_kml_bounds env kml_filepath ''EPSG:4326'' of
              None \<Rightarrow> (Inr False, self1)
            | Some gdf_kml \<Rightarrow>
                if gdf_empty gdf_kml then (Inr False, self1)
                else
                  (let self2 = self1\<lparr>combined_gdf_epsg4326 := Some gdf_kml\<rparr> in
                   case geometries gdf_kml of
                     [] \<Rightarrow> (Inr False, self2)
                   | None # _ \<Rightarrow> (Inr False, self2)
                   | Some geom # _ \<Rightarrow>
                       if is_empty geom then (Inr False, self2)
                       else
                         (let self3 = self2\<lparr>combined_geometry_epsg4326 := Some geom\<rparr> in
                          case total_bounds env gdf_kml of
                            Inl e \<Rightarrow> (Inr False, self3)
                          | Inr b \<Rightarrow>
                              (case finalize_definition env
                                      (kml_subfeuillets env
                                         (self3\<lparr>bounds_epsg4326 := Some b\<rparr>) geom) of
                                 (ok, self4) \<Rightarrow> (Inr ok, self4))))))"

definition define_from_kml_file :: "aoi_env \<Rightarrow> aoi \<Rightarrow> string \<Rightarrow> bool result \<times> aoi" where
  "define_from_kml_file env self kml_filepath =
     (case define_from_kml_file_body env self kml_filepath of
        (r, self') \<Rightarrow> (handle_errors AOIError False r, self'))"


section \<open>A concrete environment for the area of interest\<close>

text \<open>
  A small tile index and the outcomes of the external calls, used to run the definitions.
  The tables of the example know the ASCII letters and digits and four more characters:
  the sharp s (223, upper case SS), the small and capital e with acute (233 and 201), and
  the superscript two (178), a digit for \<^verbatim>\<open>isdigit\<close>. The index has a row whose code ends
  in a sharp s. The reference library knows EPSG:4326, EPSG:32198 and the zones of \<^verbatim>\<open>VALID_MTM_CRS\<close>;
  the boundary file \<^verbatim>\<open>boundary.kml\<close> holds one polygon around Paris, with bounds
  \<^verbatim>\<open>(2, 48, 3, 49)\<close>; reprojection succeeds and keeps the rows.
\<close>

definition example_geometry :: "nat \<Rightarrow> geometry" where
  "example_geometry n = \<lparr>geom_id = n, is_empty = False, is_valid = True\<rparr>"

definition example_unicode :: unicode_tables where
  "example_unicode =
     \<lparr>uc_upper =
        (\<lambda>c. if 97 \<le> c \<and> c \<le> 122 then [c - 32]
             else if c = 223 then [83, 83]
             else if c = 233 then [201]
             else [c]),
      uc_isdigit = (\<lambda>c. (48 \<le> c \<and> c \<le> 57) \<or> c = 178),
      uc_isalpha =
        (\<lambda>c. (65 \<le> c \<and> c \<le> 90) \<or> (97 \<le> c \<and> c \<le> 122) \<or> c \<in> set [201, 223, 233])\<rparr>"

definition example_tile :: "string \<Rightarrow> nat \<Rightarrow> tile_row" where
  "example_tile code n =
     \<lparr>feuillet = ustring_of code, lidar_url = ''https://tiles.example/'' @ code,
      tile_geometry = Some (example_geometry n)\<rparr>"

definition example_index :: tile_gdf where
  "example_index =
     \<lparr>tile_crs = Some ''EPSG:32198'',
      tile_rows =
        [example_tile ''21L14NE'' 1, example_tile ''21l14no'' 2, example_tile ''21L14SE'' 3,
         example_tile ''21L14SO'' 4, example_tile ''21L13NE'' 5, example_tile ''21L14'' 6,
         example_tile ''21L14NEX'' 7,
         (example_tile ''21L14'' 8)\<lparr>feuillet := ustring_of ''21L14'' @ [223]\<rparr>]\<rparr>"

definition example_crs_to_epsg :: "string \<Rightarrow> string option" where
  "example_crs_to_epsg x =
     (if x \<in> set (map (\<lambda>c. ''EPSG:'' @ c) (''4326'' # ''32198'' # map fst VALID_MTM_CRS))
      then Some (drop 5 x)
      else if x \<in> set (''4326'' # ''32198'' # map fst VALID_MTM_CRS) then Some x
      else None)"

definition example_kml_gdf :: gdf where
  "example_kml_gdf =
     \<lparr>crs = Some ''EPSG:4326'', columns = [''id'', ''geometry''],
      geometries = [Some (example_geometry 10)]\<rparr>"

definition example_env :: aoi_env where
  "example_env =
     \<lparr>unicode = example_unicode,
      crs_to_epsg = example_crs_to_epsg,
      path_exists = (\<lambda>p. p = ''boundary.kml''),
      read_index = Inr example_index,
      index_to_crs = (\<lambda>g c. Inr (g\<lparr>tile_crs := Some c\<rparr>)),
      get_mnt_20k_subfeuillet_data_gdal = (\<lambda>code c. None),
      unary_union = (\<lambda>gs. Inr (Some (example_geometry 20))),
      total_bounds_4326 = (\<lambda>g. Inr (- 72, 46, - 71, 47)),
      get_kml_bounds = (\<lambda>p c. Some example_kml_gdf),
      total_bounds = (\<lambda>g. Inr (2, 48, 3, 49)),
      geometry_to_crs = (\<lambda>g c. Inr g),
      intersecting_rows = (\<lambda>idx g. Inr []),
      gdf_to_crs = (\<lambda>g c. Inr (g\<lparr>crs := Some c\<rparr>))\<rparr>"

text \<open>
  Whether the reprojection step of the finalisation succeeds for a frame and a target
  reference, stated on the frame alone, for comparison with \<open>finalize_reproject\<close>.
\<close>

definition reprojects_to :: "aoi_env \<Rightarrow> gdf \<Rightarrow> string \<Rightarrow> bool" where
  "reprojects_to env g target =
     (case crs g of
        None \<Rightarrow> False
      | Some c \<Rightarrow>
          if upper c = upper target then geometries g \<noteq> []
          else
            (case gdf_to_crs env g target of
               Inl e \<Rightarrow> False
             | Inr g' \<Rightarrow>
                 columns g' \<noteq> [] \<and>
                 (case geometries g' of
                    Some geom # _ \<Rightarrow> \<not> is_empty geom
                  | _ \<Rightarrow> False)))"

section \<open>Vector normalisation (\<^verbatim>\<open>core/processing/vector_processor.py\<close>)\<close>

text \<open>
  The combined output store: for the path of a GeoPackage and the name of a layer, the
  frame written there. A write that raises is taken to leave the store as it was.
\<close>

type_synonym gpkg_store = "string \<times> string \<Rightarrow> gdf option"

text \<open>
  What \<^verbatim>\<open>process_vector_data\<close> calls outside itself, each call given by its outcome:
  \<^verbatim>\<open>os.path.exists\<close>, \<^verbatim>\<open>gpd.read_file\<close>, \<^verbatim>\<open>set_crs\<close>, \<^verbatim>\<open>to_crs\<close>, \<^verbatim>\<open>buffer(0)\<close>
  on the AOI geometry, \<^verbatim>\<open>gpd.clip\<close>, the copy of a frame with \<^verbatim>\<open>buffer(0)\<close> applied to
  its geometries, \<^verbatim>\<open>to_file\<close> (\<open>None\<close> when the layer is written, the exception
  otherwise) and \<^verbatim>\<open>os.remove\<close> (likewise).
\<close>

record vector_env =
  v_exists :: "string \<Rightarrow> bool"
  v_read_file :: "string \<Rightarrow> gdf result"
  v_set_crs :: "gdf \<Rightarrow> string \<Rightarrow> gdf result"
  v_to_crs :: "gdf \<Rightarrow> string \<Rightarrow> gdf result"
  v_buffer0 :: "geometry \<Rightarrow> geometry result"
  v_clip :: "gdf \<Rightarrow> geometry \<Rightarrow> gdf option result"
  v_buffer0_gdf :: "gdf \<Rightarrow> gdf result"
  v_to_file :: "gdf \<Rightarrow> string \<Rightarrow> string \<Rightarrow> py_exception option"
  v_remove :: "string \<Rightarrow> py_exception option"

text \<open>The returned triple: success, count before the clip, count after the clip.\<close>

type_synonym counts = "bool \<times> int \<times> int"

text \<open>
  What a call of \<^verbatim>\<open>process_vector_data\<close> leaves behind: the outcome of the call, the
  store, and the files it removed.
\<close>

record vector_outcome =
  returned :: "counts result"
  store_after :: gpkg_store
  removed_files :: "string list"

text \<open>
  The body is given in the order of the source, one definition for each stage; a stage
  yields \<open>Inl\<close> the triple of an early \<^verbatim>\<open>return\<close> or \<open>Inr\<close> what the next stage needs.
  First the existence check and the read (lines 50 to 60). A read that raises reaches the
  \<^verbatim>\<open>except\<close> clauses at the end of the function, where both counts are still zero.
\<close>

definition pv_read :: "vector_env \<Rightarrow> string \<Rightarrow> counts + gdf" where
  "pv_read env input_filepath =
     (if \<not> v_exists env input_filepath then Inl (False, - 1, - 1)
      else
        (case v_read_file env input_filepath of
           Inl e \<Rightarrow>
             if isinstance e FileNotFoundError then Inl (False, - 1, - 1)
             else Inl (False, 0, - 1)
         | Inr g \<Rightarrow> if gdf_empty g then Inl (True, 0, 0) else Inr g))"

text \<open>The assumed reference of a frame that declares none (lines 66 to 74).\<close>

definition pv_assume_crs :: "vector_env \<Rightarrow> gdf \<Rightarrow> gdf" where
  "pv_assume_crs env g =
     (case crs g of
        Some c \<Rightarrow> g
      | None \<Rightarrow> (case v_set_crs env g ''EPSG:4326'' of Inl e_crs \<Rightarrow> g | Inr g' \<Rightarrow> g'))"

text \<open>The reprojection (lines 77 to 98): the frame and \<^verbatim>\<open>count_after_reproj\<close>.\<close>

definition pv_reproject :: "vector_env \<Rightarrow> gdf \<Rightarrow> int \<Rightarrow> string \<Rightarrow> counts + (gdf \<times> int)" where
  "pv_reproject env g count_initial_read target_crs_mtm =
     (let perform_reprojection =
            (case crs g of Some c \<Rightarrow> upper c \<noteq> upper target_crs_mtm | None \<Rightarrow> True)
      in if perform_reprojection then
           (case v_to_crs env g target_crs_mtm of
              Inl e \<Rightarrow> Inl (False, count_initial_read, - 1)
            | Inr gdf_mtm \<Rightarrow> Inr (gdf_mtm, gdf_len gdf_mtm))
         else Inr (g, count_initial_read))"

text \<open>
  The validation of the AOI geometry (lines 105 to 110). \<^verbatim>\<open>buffer(0)\<close> stands outside
  an inner \<^verbatim>\<open>try\<close>: when it raises, the last \<^verbatim>\<open>except\<close> clause of the function builds
  the triple.
\<close>

definition pv_valid_aoi :: "vector_env \<Rightarrow> geometry \<Rightarrow> int \<Rightarrow> int \<Rightarrow> counts + geometry" where
  "pv_valid_aoi env aoi_geometry_mtm count_initial_read count_after_reproj =
     (if \<not> is_valid aoi_geometry_mtm then
        (case v_buffer0 env aoi_geometry_mtm of
           Inl e \<Rightarrow>
             Inl (False,
                  (if count_after_reproj \<noteq> 0 then count_after_reproj else count_initial_read),
                  - 1)
         | Inr repaired \<Rightarrow>
             if \<not> is_valid repaired then Inl (False, count_after_reproj, - 1)
             else Inr repaired)
      else Inr aoi_geometry_mtm)"

text \<open>
  The clip with its single retry (lines 113 to 141). The first component of
  \<open>pv_first_clip\<close> is \<^verbatim>\<open>gdf_mtm\<close> as the retry finds it.
\<close>

definition pv_first_clip ::
    "vector_env \<Rightarrow> gdf \<Rightarrow> geometry \<Rightarrow> string \<Rightarrow> gdf \<times> gdf option result" where
  "pv_first_clip env gdf_mtm aoi_geometry_mtm target_crs_mtm =
     (case crs gdf_mtm of
        None \<Rightarrow>
          (case v_set_crs env gdf_mtm target_crs_mtm of
             Inl e \<Rightarrow> (gdf_mtm, Inl e)
           | Inr g \<Rightarrow> (g, v_clip env g aoi_geometry_mtm))
      | Some c \<Rightarrow> (gdf_mtm, v_clip env gdf_mtm aoi_geometry_mtm))"

definition pv_retry_clip ::
    "vector_env \<Rightarrow> gdf \<Rightarrow> geometry \<Rightarrow> string \<Rightarrow> gdf option result" where
  "pv_retry_clip env gdf_mtm aoi_geometry_mtm target_crs_mtm =
     (case v_buffer0_gdf env gdf_mtm of
        Inl e \<Rightarrow> Inl e
      | Inr gdf_mtm_buffered \<Rightarrow>
          (case (if crs gdf_mtm_buffered = None then
                   (case crs gdf_mtm of
                      Some c \<Rightarrow> v_set_crs env gdf_mtm_buffered c
                    | None \<Rightarrow>
                        if target_crs_mtm \<noteq> [] then v_set_crs env gdf_mtm_buffered target_crs_mtm
                        else Inr gdf_mtm_buffered)
                 else Inr gdf_mtm_buffered) of
             Inl e \<Rightarrow> Inl e
           | Inr g \<Rightarrow> v_clip env g aoi_geometry_mtm))"

definition pv_clip ::
    "vector_env \<Rightarrow> gdf \<Rightarrow> geometry \<Rightarrow> string \<Rightarrow> int \<Rightarrow> counts + gdf" where
  "pv_clip env gdf_mtm aoi_geometry_mtm target_crs_mtm count_before_clip_for_summary =
     (case pv_first_clip env gdf_mtm aoi_geometry_mtm target_crs_mtm of
        (gdf_mtm', first) \<Rightarrow>
          (case (case first of
                   Inr c \<Rightarrow> Inr c
                 | Inl clip_err \<Rightarrow> pv_retry_clip env gdf_mtm' aoi_geometry_mtm target_crs_mtm) of
             Inl e_retry \<Rightarrow> Inl (False, count_before_clip_for_summary, - 1)
           | Inr None \<Rightarrow> Inl (False, count_before_clip_for_summary, - 1)
           | Inr (Some gdf_clipped) \<Rightarrow> Inr gdf_clipped))"

text \<open>The cleaning of a column name (line 155).\<close>

definition clean_column :: "string \<Rightarrow> string" where
  "clean_column col =
     filter (\<lambda>c. c \<noteq> CHR ''.'' \<and> c \<noteq> CHR '':'')
       (map (\<lambda>c. if c = CHR '' '' then CHR ''_'' else c) col)"

text \<open>
  The save (lines 143 to 181): the triple, the store and \<^verbatim>\<open>processed_successfully\<close>. The
  look at the layers already in the store (lines 160 to 171) reads and changes nothing.
\<close>

definition pv_save ::
    "vector_env \<Rightarrow> gpkg_store \<Rightarrow> gdf \<Rightarrow> string \<Rightarrow> string \<Rightarrow> int
       \<Rightarrow> counts \<times> gpkg_store \<times> bool" where
  "pv_save env store gdf_clipped output_gpkg_path output_layer_name
       count_before_clip_for_summary =
     (let count_after_clip = gdf_len gdf_clipped;
          cleaned = gdf_clipped\<lparr>columns := map clean_column (columns gdf_clipped)\<rparr>
      in case v_to_file env cleaned output_gpkg_path output_layer_name of
           None \<Rightarrow>
             ((True, count_before_clip_for_summary, count_after_clip),
              store((output_gpkg_path, output_layer_name) \<mapsto> cleaned), True)
         | Some e_save \<Rightarrow>
             ((False, count_before_clip_for_summary, count_after_clip), store, False))"

text \<open>\<^verbatim>\<open>os.path.basename\<close> on a path with forward slashes.\<close>

definition basename :: "string \<Rightarrow> string" where
  "basename p = rev (takeWhile (\<lambda>c. c \<noteq> CHR ''/'') (rev p))"

text \<open>The \<^verbatim>\<open>finally\<close> block (lines 193 to 207): the files it removes.\<close>

definition pv_cleanup ::
    "vector_env \<Rightarrow> string \<Rightarrow> string option \<Rightarrow> bool \<Rightarrow> bool \<Rightarrow> string list" where
  "pv_cleanup env input_filepath temp_processing_dir delete_input_temp_file
       processed_successfully =
     (let is_temp_file =
            (case temp_processing_dir of
               None \<Rightarrow> False
             | Some d \<Rightarrow>
                 d \<noteq> [] \<and> input_filepath \<noteq> [] \<and> startswith input_filepath d
                 \<and> contains ''temp_'' (basename input_filepath))
      in if delete_input_temp_file \<and> is_temp_file \<and> v_exists env input_filepath
            \<and> processed_successfully
         then (case v_remove env input_filepath of None \<Rightarrow> [input_filepath] | Some e_del \<Rightarrow> [])
         else [])"

text \<open>The stages in sequence, up to the \<^verbatim>\<open>return\<close> that is taken.\<close>

definition pv_stages ::
    "vector_env \<Rightarrow> gpkg_store \<Rightarrow> string \<Rightarrow> geometry \<Rightarrow> string \<Rightarrow> string \<Rightarrow> string
       \<Rightarrow> counts \<times> gpkg_store \<times> bool" where
  "pv_stages env store input_filepath aoi_geometry_mtm target_crs_mtm output_gpkg_path
       output_layer_name =
     (case pv_read env input_filepath of
        Inl r \<Rightarrow> (r, store, False)
      | Inr gdf_read \<Rightarrow>
          (let count_initial_read = gdf_len gdf_read;
               g = pv_assume_crs env gdf_read
           in case pv_reproject env g count_initial_read target_crs_mtm of
                Inl r \<Rightarrow> (r, store, False)
              | Inr (gdf_mtm, count_after_reproj) \<Rightarrow>
                  (case pv_valid_aoi env aoi_geometry_mtm count_initial_read
                          count_after_reproj of
                     Inl r \<Rightarrow> (r, store, False)
                   | Inr aoi_valid \<Rightarrow>
                       (case pv_clip env gdf_mtm aoi_valid target_crs_mtm
                               count_after_reproj of
                          Inl r \<Rightarrow> (r, store, False)
                        | Inr gdf_clipped \<Rightarrow>
                            pv_save env store gdf_clipped output_gpkg_path output_layer_name
                              count_after_reproj))))"

text \<open>
  \<^verbatim>\<open>process_vector_data\<close>: the body with its \<^verbatim>\<open>finally\<close> block, under the decorator
  \<^verbatim>\<open>handle_errors(ProcessingError, default_return=(False, -1, -1))\<close>.
\<close>

definition process_vector_data ::
    "vector_env \<Rightarrow> gpkg_store \<Rightarrow> string \<Rightarrow> geometry \<Rightarrow> string \<Rightarrow> string \<Rightarrow> string
       \<Rightarrow> bool \<Rightarrow> string option \<Rightarrow> vector_outcome" where
  "process_vector_data env store input_filepath aoi_geometry_mtm target_crs_mtm
       output_gpkg_path output_layer_name delete_input_temp_file temp_processing_dir =
     (case pv_stages env store input_filepath aoi_geometry_mtm target_crs_mtm
             output_gpkg_path output_layer_name of
        (r, store', processed_successfully) \<Rightarrow>
          \<lparr>returned = handle_errors ProcessingError (False, - 1, - 1) (Inr r),
           store_after = store',
           removed_files =
             pv_cleanup env input_filepath temp_processing_dir delete_input_temp_file
               processed_successfully\<rparr>)"

section \<open>A concrete environment for vector normalisation\<close>

text \<open>
  A file \<^verbatim>\<open>roads.geojson\<close> with three features in EPSG:4326, a file \<^verbatim>\<open>none.geojson\<close>
  with no feature; reprojection keeps the rows; the clip keeps the first two rows; the
  write to the layer \<^verbatim>\<open>locked\<close> raises, every other write succeeds.
\<close>

definition example_roads :: gdf where
  "example_roads =
     \<lparr>crs = Some ''EPSG:4326'', columns = [''road name'', ''geometry''],
      geometries = [Some (example_geometry 1), Some (example_geometry 2),
                    Some (example_geometry 3)]\<rparr>"

definition example_vector_env :: vector_env where
  "example_vector_env =
     \<lparr>v_exists = (\<lambda>p. p \<in> set [''roads.geojson'', ''none.geojson'']),
      v_read_file =
        (\<lambda>p. if p = ''roads.geojson'' then Inr example_roads
              else if p = ''none.geojson''
              then Inr \<lparr>crs = Some ''EPSG:4326'', columns = [''geometry''], geometries = []\<rparr>
              else Inl (FileNotFoundError, p)),
      v_set_crs = (\<lambda>g c. Inr (g\<lparr>crs := Some c\<rparr>)),
      v_to_crs = (\<lambda>g c. Inr (g\<lparr>crs := Some c\<rparr>)),
      v_buffer0 = (\<lambda>g. Inr (g\<lparr>is_valid := True\<rparr>)),
      v_clip = (\<lambda>g a. Inr (Some (g\<lparr>geometries := take 2 (geometries g)\<rparr>))),
      v_buffer0_gdf = (\<lambda>g. Inr g),
      v_to_file =
        (\<lambda>g p l. if l = ''locked'' then Some (OSError, ''database is locked'') else None),
      v_remove = (\<lambda>p. None)\<rparr>"

section \<open>The tiled raster source (\<^verbatim>\<open>core/datasources/mnt_lidar.py\<close>)\<close>

text \<open>The attributes of an \<^verbatim>\<open>MNTLiDARSource\<close> that \<^verbatim>\<open>fetch_data\<close> reads.\<close>

record mnt_source =
  mnt_name :: string
  mnt_enabled :: bool
  index_gpkg_path :: "string option"
  index_layer_name :: "string option"
  index_feuillet_column :: "string option"
  index_url_column :: "string option"
  local_cache_dir :: string

text \<open>
  The \<^verbatim>\<open>content-length\<close> header of a response: absent, a number, or text that
  \<^verbatim>\<open>int\<close> rejects. A response is the header, the sizes of the chunks that
  \<^verbatim>\<open>iter_content\<close> yields, and the exception it raises after them, if any.
\<close>

datatype content_length = NoHeader | Declared int | Malformed

record http_response =
  content_length :: content_length
  chunks :: "nat list"
  stream_error :: "py_exception option"

text \<open>
  What \<^verbatim>\<open>fetch_data\<close> calls outside itself: whether the index file exists,
  \<^verbatim>\<open>requests.get\<close> with \<^verbatim>\<open>raise_for_status\<close>, and the exceptions of \<^verbatim>\<open>open\<close>,
  \<^verbatim>\<open>os.remove\<close> and of the copy into the cache (\<open>None\<close> when the call succeeds).
\<close>

record fetch_env =
  index_file_exists :: bool
  http_get :: "string \<Rightarrow> http_response result"
  open_error :: "string \<Rightarrow> py_exception option"
  remove_error :: "string \<Rightarrow> py_exception option"
  cache_copy_error :: "string \<Rightarrow> py_exception option"

text \<open>
  The state the loop changes: the files on disk (path to size), the list
  \<^verbatim>\<open>local_tif_paths\<close> and the source's list of temporary files.
\<close>

record fetch_state =
  files :: "string \<Rightarrow> nat option"
  local_tif_paths :: "string list"
  temp_files :: "string list"

text \<open>\<^verbatim>\<open>validate_config\<close> and \<^verbatim>\<open>is_enabled\<close> (\<^verbatim>\<open>core/datasources/base.py\<close>).\<close>

definition mnt_validate_config :: "fetch_env \<Rightarrow> mnt_source \<Rightarrow> string list" where
  "mnt_validate_config env self =
     concat (map (\<lambda>(field, v). if truthy v then [] else [''MNT LiDAR data source requires '' @ field])
               [(''index_gpkg_path'', index_gpkg_path self),
                (''index_layer_name'', index_layer_name self),
                (''index_feuillet_column'', index_feuillet_column self),
                (''index_url_column'', index_url_column self)])
     @ (if truthy (index_gpkg_path self) \<and> \<not> index_file_exists env
        then [''Index GPKG file not found''] else [])"

definition mnt_is_enabled :: "fetch_env \<Rightarrow> mnt_source \<Rightarrow> bool" where
  "mnt_is_enabled env self =
     (if \<not> mnt_enabled self then False else length (mnt_validate_config env self) = 0)"

text \<open>
  A file name or a URL built from a tile code holds the UTF-8 bytes of the code.
\<close>

definition utf8_char :: "nat \<Rightarrow> string" where
  "utf8_char c =
     (if c < 128 then [char_of c]
      else if c < 2048 then [char_of (192 + c div 64), char_of (128 + c mod 64)]
      else if c < 65536 then
        [char_of (224 + c div 4096), char_of (128 + c div 64 mod 64), char_of (128 + c mod 64)]
      else
        [char_of (240 + c div 262144), char_of (128 + c div 4096 mod 64),
         char_of (128 + c div 64 mod 64), char_of (128 + c mod 64)])"

definition utf8 :: "ustring \<Rightarrow> string" where
  "utf8 s = concat (map utf8_char s)"

text \<open>
  \<^verbatim>\<open>tile_gdf[column].iloc[0]\<close>: a column the frame does not have raises, and so does a
  frame without rows. The code of the tile is returned as the bytes it contributes to the
  file name, empty exactly when the code is empty.
\<close>

definition tile_column :: "tile_gdf \<Rightarrow> string \<Rightarrow> string result" where
  "tile_column g col =
     (if col = ''feuillet'' then
        (case tile_rows g of
           [] \<Rightarrow> Inl (IndexError, ''single positional indexer is out-of-bounds'')
         | r # _ \<Rightarrow> Inr (utf8 (feuillet r)))
      else if col = ''lidar_url'' then
        (case tile_rows g of
           [] \<Rightarrow> Inl (IndexError, ''single positional indexer is out-of-bounds'')
         | r # _ \<Rightarrow> Inr (lidar_url r))
      else Inl (KeyError, col))"

text \<open>\<^verbatim>\<open>s.rstrip('/')\<close>, and \<^verbatim>\<open>os.path.join\<close> with a second part that is not absolute.\<close>

definition rstrip_slash :: "string \<Rightarrow> string" where
  "rstrip_slash s = rev (dropWhile (\<lambda>c. c = CHR ''/'') (rev s))"

definition path_join :: "string \<Rightarrow> string \<Rightarrow> string" where
  "path_join a b =
     (if a = [] then b else if last a = CHR ''/'' then a @ b else a @ ''/'' @ b)"

text \<open>
  The download of one tile, from \<^verbatim>\<open>requests.get\<close> to the copy into the cache (lines
  140 to 183). Every exception in it reaches the \<^verbatim>\<open>except\<close> clause of line 185, which
  logs it, and the loop goes on with the state as the exception left it.
\<close>

definition download_tile ::
    "fetch_env \<Rightarrow> mnt_source \<Rightarrow> fetch_state \<Rightarrow> string \<Rightarrow> string \<Rightarrow> string \<Rightarrow> fetch_state" where
  "download_tile env self st download_url temp_tif_path tif_filename =
     (case http_get env download_url of
        Inl e \<Rightarrow> st
      | Inr response \<Rightarrow>
          (case content_length response of
             Malformed \<Rightarrow> st
           | header \<Rightarrow>
               (let total_size = (case header of Declared n \<Rightarrow> n | _ \<Rightarrow> 0) in
                case open_error env temp_tif_path of
                  Some e \<Rightarrow> st
                | None \<Rightarrow>
                    (let received = sum_list (chunks response);
                         st1 = st\<lparr>files := (files st)(temp_tif_path \<mapsto> received)\<rparr>
                     in case stream_error response of
                          Some e \<Rightarrow> st1
                        | None \<Rightarrow>
                            if total_size \<noteq> 0 \<and> int received \<noteq> total_size then
                              (case remove_error env temp_tif_path of
                                 None \<Rightarrow> st1\<lparr>files := (files st1)(temp_tif_path := None)\<rparr>
                               | Some e_del \<Rightarrow> st1)
                            else
                              (let st2 = st1\<lparr>local_tif_paths :=
                                               local_tif_paths st1 @ [temp_tif_path],
                                             temp_files := temp_files st1 @ [temp_tif_path]\<rparr>;
                                   cache_copy_path = path_join (local_cache_dir self) tif_filename
                               in if local_cache_dir self \<noteq> []
                                     \<and> files st2 cache_copy_path = None then
                                    (case cache_copy_error env cache_copy_path of
                                       None \<Rightarrow>
                                         st2\<lparr>files := (files st2)(cache_copy_path \<mapsto> received)\<rparr>
                                     | Some e_cache \<Rightarrow> st2)
                                  else st2)))))"

text \<open>One turn of the loop over the tiles of the AOI (lines 114 to 186).\<close>

definition fetch_tile ::
    "fetch_env \<Rightarrow> mnt_source \<Rightarrow> string \<Rightarrow> string \<Rightarrow> string \<Rightarrow> fetch_state \<Rightarrow> tile_gdf
       \<Rightarrow> fetch_state" where
  "fetch_tile env self feuillet_column url_column temp_dir st tile =
     (case tile_column tile feuillet_column of
        Inl e \<Rightarrow> st
      | Inr feuillet_name \<Rightarrow>
          (case tile_column tile url_column of
             Inl e \<Rightarrow> st
           | Inr folder_url \<Rightarrow>
               if feuillet_name = [] \<or> folder_url = [] then st
               else
                 (let tif_filename = ''MNT_'' @ feuillet_name @ ''.tif'';
                      download_url = rstrip_slash folder_url @ ''/'' @ tif_filename;
                      temp_tif_path = path_join temp_dir tif_filename;
                      cached_path = path_join (local_cache_dir self) tif_filename
                  in if local_cache_dir self \<noteq> [] \<and> files st cached_path \<noteq> None
                     then st\<lparr>local_tif_paths := local_tif_paths st @ [cached_path]\<rparr>
                     else download_tile env self st download_url temp_tif_path tif_filename)))"

fun fetch_tiles ::
    "fetch_env \<Rightarrow> mnt_source \<Rightarrow> string \<Rightarrow> string \<Rightarrow> string \<Rightarrow> fetch_state \<Rightarrow> tile_gdf list
       \<Rightarrow> fetch_state" where
  "fetch_tiles env self feuillet_column url_column temp_dir st [] = st"
| "fetch_tiles env self feuillet_column url_column temp_dir st (tile # tiles) =
     fetch_tiles env self feuillet_column url_column temp_dir
       (fetch_tile env self feuillet_column url_column temp_dir st tile) tiles"

text \<open>
  \<^verbatim>\<open>MNTLiDARSource.fetch_data\<close>: the function as written, then under its decorator
  \<^verbatim>\<open>handle_errors(DataSourceError, default_return=None)\<close>.
\<close>

definition fetch_data_body ::
    "fetch_env \<Rightarrow> mnt_source \<Rightarrow> aoi \<Rightarrow> string \<Rightarrow> fetch_state
       \<Rightarrow> string list option result \<times> fetch_state" where
  "fetch_data_body env self aoi_object temp_dir st =
     (if \<not> mnt_is_enabled env self then (Inr None, st)
      else
        (case (index_feuillet_column self, index_url_column self) of
           (Some feuillet_column, Some url_column) \<Rightarrow>
             if \<not> truthy (index_gpkg_path self) \<or> \<not> truthy (index_layer_name self)
                \<or> feuillet_column = [] \<or> url_column = []
             then (Inr None, st)
             else if subfeuillet_20k_data_gdfs aoi_object = [] then (Inr None, st)
             else
               (let st' = fetch_tiles env self feuillet_column url_column temp_dir st
                            (subfeuillet_20k_data_gdfs aoi_object)
                in if local_tif_paths st' = [] then (Inr None, st')
                   else (Inr (Some (local_tif_paths st')), st'))
         | _ \<Rightarrow> (Inr None, st)))"

definition fetch_data ::
    "fetch_env \<Rightarrow> mnt_source \<Rightarrow> aoi \<Rightarrow> string \<Rightarrow> fetch_state
       \<Rightarrow> string list option result \<times> fetch_state" where
  "fetch_data env self aoi_object temp_dir st =
     (case fetch_data_body env self aoi_object temp_dir st of
        (r, st') \<Rightarrow> (handle_errors DataSourceError None r, st'))"

section \<open>A concrete environment for the tiled raster source\<close>

text \<open>
  Four tiles. The server declares 1000 bytes for each of \<^verbatim>\<open>A\<close>, \<^verbatim>\<open>C\<close> and \<^verbatim>\<open>D\<close> and 0
  bytes for \<^verbatim>\<open>B\<close>, and sends 500 bytes every time; the stream of \<^verbatim>\<open>D\<close> raises after
  them; the partial file of \<^verbatim>\<open>C\<close> cannot be removed.
\<close>

definition example_source :: mnt_source where
  "example_source =
     \<lparr>mnt_name = ''MNT'', mnt_enabled = True, index_gpkg_path = Some ''INDEX.gpkg'',
      index_layer_name = Some ''QC_index_url_snrc_mnt'',
      index_feuillet_column = Some ''feuillet'', index_url_column = Some ''lidar_url'',
      local_cache_dir = []\<rparr>"

definition example_fetch_env :: fetch_env where
  "example_fetch_env =
     \<lparr>index_file_exists = True,
      http_get =
        (\<lambda>url. if url = ''https://tiles.example/B/MNT_B.tif''
                then Inr \<lparr>content_length = Declared 0, chunks = [500], stream_error = None\<rparr>
                else if url = ''https://tiles.example/D/MNT_D.tif''
                then Inr \<lparr>content_length = Declared 1000, chunks = [500],
                          stream_error = Some (OSError, ''connection broken'')\<rparr>
                else Inr \<lparr>content_length = Declared 1000, chunks = [500],
                          stream_error = None\<rparr>),
      open_error = (\<lambda>p. None),
      remove_error =
        (\<lambda>p. if p = ''tmp/MNT_C.tif'' then Some (OSError, ''permission denied'') else None),
      cache_copy_error = (\<lambda>p. None)\<rparr>"

definition example_manifest_tile :: "string \<Rightarrow> tile_gdf" where
  "example_manifest_tile code =
     \<lparr>tile_crs = Some ''EPSG:32198'', tile_rows = [example_tile code 1]\<rparr>"

definition empty_fetch_state :: fetch_state where
  "empty_fetch_state = \<lparr>files = Map.empty, local_tif_paths = [], temp_files = []\<rparr>"

definition example_aoi :: "string list \<Rightarrow> aoi" where
  "example_aoi codes =
     (aoi_init example_env None)\<lparr>subfeuillet_20k_data_gdfs := map example_manifest_tile codes\<rparr>"

section \<open>The pipeline manager (\<^verbatim>\<open>core/pipeline/pipeline_manager.py\<close>)\<close>

text \<open>
  A data source as the pipeline sees it: the attributes set by \<^verbatim>\<open>DataSource.__init__\<close>
  and the class of the object, which the loop tests with \<^verbatim>\<open>isinstance\<close>.
\<close>

datatype source_class =
  MNTLiDARSource | CourbesNiveauSource | LocalRasterDataSource | OtherDataSource

record datasource =
  ds_id :: string
  ds_name :: string
  ds_type :: string
  ds_enabled :: bool
  ds_priority :: int
  ds_output_layer_name :: string
  ds_class :: source_class

text \<open>
  A record of the run summary (a dictionary in the source). The two item counts hold a
  number or a text; the key \<^verbatim>\<open>processed_items_in_aoi\<close> may be absent.
\<close>

datatype cell = Num int | Txt string

record source_summary =
  sum_id :: string
  sum_name :: string
  sum_type :: string
  sum_enabled :: bool
  sum_status :: string
  items_source_in_aoi_bbox :: cell
  items_processed_final :: cell
  priority_level :: int
  processed_items_in_aoi :: "cell option"

text \<open>The attributes of the \<^verbatim>\<open>PipelineManager\<close>, and the combined output store on disk.\<close>

record pipeline =
  pipeline_aoi :: "aoi option"
  output_vector_gpkg_filepath :: "string option"
  imagery_output_subdir :: "string option"
  temp_files_dir :: "string option"
  project_output_dir :: "string option"
  list_of_datasources :: "datasource list"
  processing_summary :: "source_summary list"
  combined_store :: gpkg_store

text \<open>
  What one enabled source leaves in its record and in the store, from the call of
  \<^verbatim>\<open>fetch_data\<close> to the final status (lines 265 to 400 of \<^verbatim>\<open>run\<close>).
\<close>

record source_result =
  res_status :: string
  res_items_source :: cell
  res_processed_items :: "cell option"
  res_store :: gpkg_store

text \<open>
  What the pipeline calls outside itself: the reprojection and the write of the AOI
  frame, the fetch and processing of one source (an exception that escapes it ends the
  run), and the steps after the loop that can raise (the lookup of the project settings).
\<close>

record pipeline_env =
  aoi_to_crs :: "gdf \<Rightarrow> string \<Rightarrow> gdf result"
  aoi_to_file :: "gdf \<Rightarrow> string \<Rightarrow> string \<Rightarrow> py_exception option"
  fetch_and_process :: "gpkg_store \<Rightarrow> datasource \<Rightarrow> source_result result"
  project_settings_error :: "py_exception option"

definition aoi_index_id :: string where
  "aoi_index_id = ''snrc_index_local_50k''"

text \<open>
  The \<^verbatim>\<open>try\<close> block of \<^verbatim>\<open>_process_aoi_layer\<close> (lines 430 to 446): the status, the two
  counts and the store. An exception leaves the status of failure, and the first count as
  it was set.
\<close>

definition save_aoi_extent ::
    "pipeline_env \<Rightarrow> aoi \<Rightarrow> string \<Rightarrow> string \<Rightarrow> gpkg_store
       \<Rightarrow> string \<times> int \<times> int \<times> gpkg_store" where
  "save_aoi_extent env a path layer store =
     (case (combined_gdf_epsg4326 a, target_mtm_crs a) of
        (Some g, Some target) \<Rightarrow>
          (let items_bruts = (if \<not> gdf_empty g then 1 else 0) in
           case aoi_to_crs env g target of
             Inl e \<Rightarrow> (''Failed (AOI Extent Save)'', items_bruts, 0, store)
           | Inr aoi_to_save \<Rightarrow>
               if \<not> gdf_empty aoi_to_save then
                 (case aoi_to_file env aoi_to_save path layer of
                    Some e \<Rightarrow> (''Failed (AOI Extent Save)'', items_bruts, 0, store)
                  | None \<Rightarrow>
                      (''Success'', items_bruts, gdf_len aoi_to_save,
                       store((path, layer) \<mapsto> aoi_to_save)))
               else (''Success (empty)'', items_bruts, 0, store))
      | _ \<Rightarrow> (''Failed (AOI Extent Save)'', 0, 0, store))"

text \<open>\<^verbatim>\<open>PipelineManager._process_aoi_layer\<close>.\<close>

definition process_aoi_layer :: "pipeline_env \<Rightarrow> pipeline \<Rightarrow> pipeline" where
  "process_aoi_layer env self =
     (case (pipeline_aoi self, output_vector_gpkg_filepath self) of
        (Some a, Some path) \<Rightarrow>
          if path = [] then self
          else
            (case find (\<lambda>ds. ds_id ds = ''snrc_index_local_50k'' \<and> ds_enabled ds)
                    (list_of_datasources self) of
               None \<Rightarrow> self
             | Some ds_cfg \<Rightarrow>
                 (case save_aoi_extent env a path (ds_output_layer_name ds_cfg)
                         (combined_store self) of
                    (status, items_bruts, items_final, store') \<Rightarrow>
                      self\<lparr>processing_summary :=
                             processing_summary self @
                               [\<lparr>sum_id = ds_id ds_cfg, sum_name = ds_name ds_cfg,
                                 sum_type = ds_type ds_cfg, sum_enabled = ds_enabled ds_cfg,
                                 sum_status = status,
                                 items_source_in_aoi_bbox = Num items_bruts,
                                 items_processed_final = Num items_final,
                                 priority_level = ds_priority ds_cfg,
                                 processed_items_in_aoi = None\<rparr>],
                           combined_store := store'\<rparr>))
      | _ \<Rightarrow> self)"

text \<open>The record a turn of the loop starts from (lines 218 to 227).\<close>

definition initial_summary :: "datasource \<Rightarrow> source_summary" where
  "initial_summary ds_object =
     \<lparr>sum_id = ds_id ds_object, sum_name = ds_name ds_object, sum_type = ds_type ds_object,
      sum_enabled = ds_enabled ds_object, sum_status = ''Ignored (not enabled)'',
      items_source_in_aoi_bbox = Txt ''N/A'', items_processed_final = Txt ''N/A'',
      priority_level = ds_priority ds_object, processed_items_in_aoi = None\<rparr>"

definition append_summary :: "pipeline \<Rightarrow> source_summary \<Rightarrow> pipeline" where
  "append_summary self source_summary =
     self\<lparr>processing_summary := processing_summary self @ [source_summary]\<rparr>"

text \<open>
  One turn of the loop over the sources: \<open>Inl\<close> when an exception escapes the turn. A
  source that is not enabled is recorded and skipped; the enabled source with the id of
  the AOI index is skipped without a record.
\<close>

definition run_source :: "pipeline_env \<Rightarrow> pipeline \<Rightarrow> datasource \<Rightarrow> py_exception + pipeline" where
  "run_source env self ds_object =
     (let source_summary = initial_summary ds_object in
      if \<not> ds_enabled ds_object then Inr (append_summary self source_summary)
      else if ds_id ds_object = ''snrc_index_local_50k'' then Inr self
      else
        (case pipeline_aoi self of
           None \<Rightarrow> Inl (AttributeError, ''NoneType object has no attribute'')
         | Some a \<Rightarrow>
             if combined_geometry_mtm a = None then
               Inr (append_summary self
                      (source_summary\<lparr>sum_status := ''Failed (MTM AOI missing)''\<rparr>))
             else if ds_class ds_object = OtherDataSource \<and> bounds_epsg4326 a = None then
               Inr (append_summary self
                      (source_summary\<lparr>sum_status := ''Failed (AOI bounds fetch)''\<rparr>))
             else
               (case fetch_and_process env (combined_store self) ds_object of
                  Inl e \<Rightarrow> Inl e
                | Inr r \<Rightarrow>
                    Inr (append_summary (self\<lparr>combined_store := res_store r\<rparr>)
                           (source_summary\<lparr>sum_status := res_status r,
                              items_source_in_aoi_bbox := res_items_source r,
                              processed_items_in_aoi := res_processed_items r\<rparr>)))))"

fun run_sources ::
    "pipeline_env \<Rightarrow> pipeline \<Rightarrow> datasource list \<Rightarrow> py_exception option \<times> pipeline" where
  "run_sources env self [] = (None, self)"
| "run_sources env self (ds_object # rest) =
     (case run_source env self ds_object of
        Inl e \<Rightarrow> (Some e, self)
      | Inr self' \<Rightarrow> run_sources env self' rest)"

text \<open>
  The sort key of \<^verbatim>\<open>display_summary\<close> (line 489) and the in-place sort. Python's sort is
  stable and ascending, and \<^verbatim>\<open>False\<close> sorts before \<^verbatim>\<open>True\<close>.
\<close>

definition summary_key :: "source_summary \<Rightarrow> bool \<times> int \<times> string" where
  "summary_key x = (sum_id x = ''snrc_index_local_50k'', priority_level x, sum_id x)"

definition display_summary :: "pipeline \<Rightarrow> pipeline" where
  "display_summary self =
     (if processing_summary self = [] then self
      else self\<lparr>processing_summary := sort_key summary_key (processing_summary self)\<rparr>)"

text \<open>\<^verbatim>\<open>PipelineManager.run\<close>: the function as written, then as decorated.\<close>

definition run_initialised :: "pipeline \<Rightarrow> bool" where
  "run_initialised self =
     (case pipeline_aoi self of
        None \<Rightarrow> False
      | Some a \<Rightarrow>
          truthy (output_vector_gpkg_filepath self) \<and> truthy (imagery_output_subdir self)
          \<and> temp_files_dir self \<noteq> None \<and> truthy (project_output_dir self)
          \<and> truthy (target_mtm_crs a))"

definition run_body ::
    "pipeline_env \<Rightarrow> pipeline \<Rightarrow> source_summary list option result \<times> pipeline" where
  "run_body env self =
     (if \<not> run_initialised self then (Inr None, self)
      else
        (case run_sources env (process_aoi_layer env (self\<lparr>processing_summary := []\<rparr>))
                (list_of_datasources self) of
           (Some e, self') \<Rightarrow> (Inl e, self')
         | (None, self') \<Rightarrow>
             (let shown = display_summary self' in
              case project_settings_error env of
                Some e \<Rightarrow> (Inl e, shown)
              | None \<Rightarrow> (Inr (Some (processing_summary shown)), shown))))"

definition run :: "pipeline_env \<Rightarrow> pipeline \<Rightarrow> source_summary list option result \<times> pipeline" where
  "run env self =
     (case run_body env self of (r, self') \<Rightarrow> (handle_errors SpatiaEngineError None r, self'))"

text \<open>
  The specification's order among the entries of the summary: by priority, then by id;
  and its test for an entry of the AOI index.
\<close>

definition priority_then_id :: "source_summary \<Rightarrow> int \<times> string" where
  "priority_then_id x = (priority_level x, sum_id x)"

definition is_aoi_index_entry :: "source_summary \<Rightarrow> bool" where
  "is_aoi_index_entry x = (sum_id x = ''snrc_index_local_50k'')"

section \<open>A concrete pipeline\<close>

text \<open>
  Two configured sources, the AOI index with priority 1 and a road layer with priority 2,
  over the AOI of the boundary file of the example; every external call succeeds.
\<close>

definition example_index_source :: datasource where
  "example_index_source =
     \<lparr>ds_id = ''snrc_index_local_50k'', ds_name = ''SNRC index'', ds_type = ''local_gpkg'',
      ds_enabled = True, ds_priority = 1, ds_output_layer_name = ''aoi_extent'',
      ds_class = OtherDataSource\<rparr>"

definition example_roads_source :: datasource where
  "example_roads_source =
     \<lparr>ds_id = ''roads'', ds_name = ''Roads'', ds_type = ''wfs'',
      ds_enabled = True, ds_priority = 2, ds_output_layer_name = ''roads'',
      ds_class = OtherDataSource\<rparr>"

definition example_hydro_source :: datasource where
  "example_hydro_source =
     \<lparr>ds_id = ''hydro'', ds_name = ''Hydrography'', ds_type = ''wfs'',
      ds_enabled = False, ds_priority = 2, ds_output_layer_name = ''hydro'',
      ds_class = OtherDataSource\<rparr>"

definition example_pipeline_env :: pipeline_env where
  "example_pipeline_env =
     \<lparr>aoi_to_crs = (\<lambda>g c. Inr (g\<lparr>crs := Some c\<rparr>)),
      aoi_to_file = (\<lambda>g p l. None),
      fetch_and_process =
        (\<lambda>store ds. Inr \<lparr>res_status = ''Success'', res_items_source = Num 3,
                         res_processed_items = Some (Txt ''2 (of 3)''), res_store = store\<rparr>),
      project_settings_error = None\<rparr>"

definition example_pipeline :: "datasource list \<Rightarrow> pipeline" where
  "example_pipeline sources =
     \<lparr>pipeline_aoi =
        Some (snd (define_from_kml_file example_env (aoi_init example_env None)
                     ''boundary.kml'')),
      output_vector_gpkg_filepath = Some ''out/project.gpkg'',
      imagery_output_subdir = Some ''out/imagery'',
      temp_files_dir = Some ''out/temp_files'',
      project_output_dir = Some ''out'',
      list_of_datasources = sources,
      processing_summary = [],
      combined_store = Map.empty\<rparr>"

section \<open>Properties\<close>

subsection \<open>Zone selection\<close>

lemma get_mtm_zone_from_bounds_find:
  "get_mtm_zone_from_bounds b =
     (case find (in_band (center_lon b)) mtm_bands of
        Some band \<Rightarrow> band_zone band
      | None \<Rightarrow> default_zone)"
  by (simp add: get_mtm_zone_from_bounds_def mtm_bands_def in_band_def band_zone_def
      default_zone_def Let_def)



subsection \<open>Strings\<close>

lemmas str_defs = upper_def char_upper_def ascii_lowercase_def ascii_uppercase_def is_digit_def
  isdigit_def slice_def last_two_def startswith_def

lemmas ustr_defs = ustring_of_def str_upper_def str_isdigit_def suffixes_20k_def
  example_unicode_def slice_def last_two_def startswith_def

lemma str_upper_append: "str_upper u (a @ b) = str_upper u a @ str_upper u b"
  by (simp add: str_upper_def)


lemmas ex_defs = example_env_def example_crs_to_epsg_def example_kml_gdf_def
  example_geometry_def example_index_def example_tile_def VALID_MTM_CRS_def

subsection \<open>The grammar of tile codes\<close>

lemma child_code_over_iff:
  assumes "\<forall>s\<in>S. length s = 2"
  shows "child_code_over u S code =
     (length (str_upper u code) \<in> {7, 8} \<and> last_two (str_upper u code) \<in> S
        \<and> valid_parent_prefix u (take (length (str_upper u code) - 2) (str_upper u code)))"
proof -
  define cu where "cu = str_upper u code"
  have "(\<exists>p s. cu = p @ s \<and> s \<in> S \<and> valid_parent_prefix u p) =
        (last_two cu \<in> S \<and> valid_parent_prefix u (take (length cu - 2) cu))"
  proof
    assume "\<exists>p s. cu = p @ s \<and> s \<in> S \<and> valid_parent_prefix u p"
    then obtain p s where ps: "cu = p @ s" "s \<in> S" "valid_parent_prefix u p" by blast
    then have "length s = 2" using assms by blast
    then show "last_two cu \<in> S \<and> valid_parent_prefix u (take (length cu - 2) cu)"
      using ps by (simp add: last_two_def)
  next
    assume r: "last_two cu \<in> S \<and> valid_parent_prefix u (take (length cu - 2) cu)"
    have "cu = take (length cu - 2) cu @ last_two cu" by (simp add: last_two_def)
    then show "\<exists>p s. cu = p @ s \<and> s \<in> S \<and> valid_parent_prefix u p" using r by blast
  qed
  then show ?thesis by (simp add: child_code_over_def cu_def[symmetric])
qed

lemma is_code_20k_explicit:
  "is_code_20k u code =
     (length (str_upper u code) \<in> {7, 8} \<and> last_two (str_upper u code) \<in> set suffixes_20k
        \<and> valid_parent_prefix u (take (length (str_upper u code) - 2) (str_upper u code)))"
proof -
  define cu where "cu = str_upper u code"
  show ?thesis
  proof (cases "length cu = 7 \<or> length cu = 8")
    case False
    then show ?thesis by (auto simp add: is_code_20k_def Let_def cu_def[symmetric])
  next
    case True
    then show ?thesis
    proof
      assume 7: "length cu = 7"
      then obtain a b c d e f g where l: "cu = [a, b, c, d, e, f, g]"
        by (auto simp add: length_Suc_conv eval_nat_numeral)
      show ?thesis
        unfolding is_code_20k_def Let_def cu_def[symmetric] l
        by (auto simp add: last_two_def slice_def str_isdigit_def)
    next
      assume 8: "length cu = 8"
      then obtain a b c d e f g h where l: "cu = [a, b, c, d, e, f, g, h]"
        by (auto simp add: length_Suc_conv eval_nat_numeral)
      show ?thesis
        unfolding is_code_20k_def Let_def cu_def[symmetric] l
        by (auto simp add: last_two_def slice_def str_isdigit_def)
    qed
  qed
qed

lemma suffixes_20k_length: "\<forall>s\<in>set suffixes_20k. length s = 2"
  by (simp add: suffixes_20k_def ustring_of_def)

lemma card_suffixes_20k: "card (set suffixes_20k) = 6"
  by (simp add: suffixes_20k_def ustring_of_def card_insert_if)

lemma is_code_20k_iff: "is_code_20k u code = child_code_over u (set suffixes_20k) code"
  using child_code_over_iff [OF suffixes_20k_length] is_code_20k_explicit by simp

text \<open>
  C3, as the code has it, for every table of the interpreter. A code is a child code
  exactly when its upper-case form has length 7 or 8 and is a valid parent prefix (two or
  three digits, a letter, two digits, as \<^verbatim>\<open>isdigit\<close> and \<^verbatim>\<open>isalpha\<close> read them) followed
  by one of the suffixes of the code's list. That list has six suffixes, NE, NO, SE, SO,
  NW and SW, not eight. The loop puts a code in upper case and sends it to the child path
  when it is a child code, to the parent path otherwise.
\<close>

theorem is_code_20k_grammar:
  "is_code_20k u code = child_code_over u (set suffixes_20k) code
   \<and> card (set suffixes_20k) = 6
   \<and> (\<forall>s \<in> set suffixes_20k. length s = 2)
   \<and> resolve_code env code =
       (if child_code_over (unicode env) (set suffixes_20k) (str_upper (unicode env) code)
        then resolve_20k_code env (str_upper (unicode env) code)
        else resolve_50k_code env (str_upper (unicode env) code))"
proof (intro conjI)
  show "is_code_20k u code = child_code_over u (set suffixes_20k) code"
    by (rule is_code_20k_iff)
  show "card (set suffixes_20k) = 6"
    by (rule card_suffixes_20k)
  show "\<forall>s \<in> set suffixes_20k. length s = 2"
    by (rule suffixes_20k_length)
  show "resolve_code env code =
       (if child_code_over (unicode env) (set suffixes_20k) (str_upper (unicode env) code)
        then resolve_20k_code env (str_upper (unicode env) code)
        else resolve_50k_code env (str_upper (unicode env) code))"
    by (simp add: resolve_code_def Let_def is_code_20k_iff)
qed

text \<open>
  The theorem with the tables of the example: a code in lower case, a code with a
  three-digit prefix, a code whose letter is a capital e with acute and a code whose
  second digit is a superscript two are child codes; a parent code is not, nor is a code
  whose upper-case form ends in SS; the parent code takes the parent path.
\<close>

theorem is_code_20k_grammar_witness:
  "is_code_20k example_unicode (ustring_of ''21l14ne'')
   \<and> is_code_20k example_unicode (ustring_of ''021L14SW'')
   \<and> is_code_20k example_unicode (ustring_of ''21'' @ [201] @ ustring_of ''14NE'')
   \<and> is_code_20k example_unicode (ustring_of ''2'' @ [178] @ ustring_of ''L14NE'')
   \<and> \<not> is_code_20k example_unicode (ustring_of ''21L14'')
   \<and> \<not> is_code_20k example_unicode (ustring_of ''21L14'' @ [223])
   \<and> length (ustring_of ''NE'') = 2
   \<and> resolve_code example_env (ustring_of ''21l14'') =
       resolve_50k_code example_env (ustring_of ''21L14'')"
proof -
  have "child_code_over example_unicode (set suffixes_20k) (ustring_of ''21l14ne'')"
    unfolding child_code_over_def
    by (intro conjI exI [of _ "ustring_of ''21L14''"] exI [of _ "ustring_of ''NE''"])
       (simp_all add: ustr_defs)
  moreover
  have "child_code_over example_unicode (set suffixes_20k) (ustring_of ''021L14SW'')"
    unfolding child_code_over_def
    by (intro conjI exI [of _ "ustring_of ''021L14''"] exI [of _ "ustring_of ''SW''"])
       (simp_all add: ustr_defs)
  moreover
  have "child_code_over example_unicode (set suffixes_20k)
          (ustring_of ''21'' @ [201] @ ustring_of ''14NE'')"
    unfolding child_code_over_def
    by (intro conjI exI [of _ "ustring_of ''21'' @ [201] @ ustring_of ''14''"]
          exI [of _ "ustring_of ''NE''"])
       (simp_all add: ustr_defs)
  moreover
  have "child_code_over example_unicode (set suffixes_20k)
          (ustring_of ''2'' @ [178] @ ustring_of ''L14NE'')"
    unfolding child_code_over_def
    by (intro conjI exI [of _ "ustring_of ''2'' @ [178] @ ustring_of ''L14''"]
          exI [of _ "ustring_of ''NE''"])
       (simp_all add: ustr_defs)
  moreover
  have "\<not> child_code_over example_unicode (set suffixes_20k) (ustring_of ''21L14'')"
    by (simp add: child_code_over_def ustr_defs)
  moreover
  have ss: "str_upper example_unicode (ustring_of ''21L14'' @ [223]) = ustring_of ''21L14SS''"
    by (simp add: ustr_defs)
  have "\<not> child_code_over example_unicode (set suffixes_20k) (ustring_of ''21L14'' @ [223])"
    unfolding child_code_over_iff [OF suffixes_20k_length] ss
    by (simp add: ustr_defs)
  moreover
  have "str_upper example_unicode (ustring_of ''21l14'') = ustring_of ''21L14''"
    by (simp add: ustr_defs)
  moreover
  have "ustring_of ''NE'' \<in> set suffixes_20k"
    by (simp add: suffixes_20k_def)
  moreover
  have "unicode example_env = example_unicode"
    by (simp add: example_env_def)
  ultimately show ?thesis
    using is_code_20k_grammar [of example_unicode "ustring_of ''21l14ne''" example_env]
      is_code_20k_grammar [of example_unicode "ustring_of ''021L14SW''" example_env]
      is_code_20k_grammar [of example_unicode "ustring_of ''21'' @ [201] @ ustring_of ''14NE''"
        example_env]
      is_code_20k_grammar [of example_unicode "ustring_of ''2'' @ [178] @ ustring_of ''L14NE''"
        example_env]
      is_code_20k_grammar [of example_unicode "ustring_of ''21L14'' @ [223]" example_env]
      is_code_20k_grammar [of example_unicode "ustring_of ''21L14''" example_env]
      is_code_20k_grammar [of example_unicode "ustring_of ''21l14''" example_env]
    by simp
qed

text \<open>
  C3 as stated fails: the list of the code has six suffixes, and with tables that read
  21L14 as a valid parent prefix in upper case, as Python's do, no set of eight
  two-character upper-case suffixes gives the classification of the code.
\<close>

theorem is_code_20k_eight_suffixes_counterexample:
  "card (set suffixes_20k) = 6
   \<and> \<not> (\<exists>u S. str_upper u (ustring_of ''21L14'') = ustring_of ''21L14''
          \<and> valid_parent_prefix u (ustring_of ''21L14'')
          \<and> card S = 8 \<and> (\<forall>s\<in>S. length s = 2 \<and> str_upper u s = s)
          \<and> (\<forall>code. is_code_20k u code = child_code_over u S code))"
proof
  show "card (set suffixes_20k) = 6"
    by (rule card_suffixes_20k)
  show "\<not> (\<exists>u S. str_upper u (ustring_of ''21L14'') = ustring_of ''21L14''
          \<and> valid_parent_prefix u (ustring_of ''21L14'')
          \<and> card S = 8 \<and> (\<forall>s\<in>S. length s = 2 \<and> str_upper u s = s)
          \<and> (\<forall>code. is_code_20k u code = child_code_over u S code))"
  proof
    assume "\<exists>u S. str_upper u (ustring_of ''21L14'') = ustring_of ''21L14''
          \<and> valid_parent_prefix u (ustring_of ''21L14'')
          \<and> card S = 8 \<and> (\<forall>s\<in>S. length s = 2 \<and> str_upper u s = s)
          \<and> (\<forall>code. is_code_20k u code = child_code_over u S code)"
    then obtain u S where p: "str_upper u (ustring_of ''21L14'') = ustring_of ''21L14''"
      and v: "valid_parent_prefix u (ustring_of ''21L14'')"
      and c: "card S = 8" and l: "\<forall>s\<in>S. length s = 2 \<and> str_upper u s = s"
      and e: "\<forall>code. is_code_20k u code = child_code_over u S code" by blast
    have "S \<subseteq> set suffixes_20k"
    proof
      fix s assume s: "s \<in> S"
      then have ls: "length s = 2" and us: "str_upper u s = s" using l by auto
      have up: "str_upper u (ustring_of ''21L14'' @ s) = ustring_of ''21L14'' @ s"
        using us p by (simp add: str_upper_append)
      have "child_code_over u S (ustring_of ''21L14'' @ s)"
        unfolding child_code_over_def up using s ls v
        by (intro conjI exI [of _ "ustring_of ''21L14''"] exI [of _ s])
           (simp_all add: ustring_of_def)
      then have "is_code_20k u (ustring_of ''21L14'' @ s)" using e by simp
      then have "last_two (str_upper u (ustring_of ''21L14'' @ s)) \<in> set suffixes_20k"
        using is_code_20k_explicit by blast
      then show "s \<in> set suffixes_20k" using up ls by (simp add: last_two_def ustring_of_def)
    qed
    then have "card S \<le> card (set suffixes_20k)" by (simp add: card_mono)
    then show False using c card_suffixes_20k by simp
  qed
qed

subsection \<open>Resolution of a parent code\<close>






subsection \<open>The decorated entry points\<close>

lemma isinstance_Exception: "isinstance e Exception"
  by (cases e, rename_tac c m, case_tac c) (simp_all add: isinstance_def issubclass_def)

lemma handle_errors_catches: "handle_errors t d (Inl e) = Inr d"
  by (simp add: handle_errors_def isinstance_Exception)

lemma handle_errors_cases: "handle_errors t d r = (case r of Inl e \<Rightarrow> Inr d | Inr v \<Rightarrow> Inr v)"
  by (cases r) (simp_all add: handle_errors_catches, simp add: handle_errors_def)

text \<open>
  C9. Both entry points return a boolean and never an exception: an exception raised in
  the body becomes the return value \<^verbatim>\<open>False\<close>, a boolean returned by the body is
  returned as it is.
\<close>

theorem define_never_raises:
  "\<not> isl (fst (define_from_snrc_codes env self codes))
   \<and> \<not> isl (fst (define_from_kml_file env self path))
   \<and> (isl (fst (define_from_snrc_codes_body env self codes)) \<longrightarrow>
        fst (define_from_snrc_codes env self codes) = Inr False)
   \<and> (isl (fst (define_from_kml_file_body env self path)) \<longrightarrow>
        fst (define_from_kml_file env self path) = Inr False)
   \<and> (\<forall>b. fst (define_from_snrc_codes_body env self codes) = Inr b \<longrightarrow>
        fst (define_from_snrc_codes env self codes) = Inr b)
   \<and> (\<forall>b. fst (define_from_kml_file_body env self path) = Inr b \<longrightarrow>
        fst (define_from_kml_file env self path) = Inr b)
   \<and> handle_errors AOIError False (Inl e) = Inr False"
  by (auto simp add: define_from_snrc_codes_def define_from_kml_file_def handle_errors_cases
        split: prod.splits sum.splits)

text \<open>
  A list of codes whose element is a number makes the body raise, and the decorated
  function returns \<^verbatim>\<open>False\<close>; the boundary file of the example is defined with success.
\<close>

theorem define_never_raises_witness:
  "isl (fst (define_from_snrc_codes_body example_env (aoi_init example_env None) [PyInt 21]))
   \<and> fst (define_from_snrc_codes example_env (aoi_init example_env None) [PyInt 21]) = Inr False
   \<and> fst (define_from_kml_file_body example_env (aoi_init example_env None) ''boundary.kml'')
       = Inr True
   \<and> fst (define_from_kml_file example_env (aoi_init example_env None) ''boundary.kml'')
       = Inr True"
proof -
  have a: "isl (fst (define_from_snrc_codes_body example_env (aoi_init example_env None)
             [PyInt 21]))"
    by (simp add: define_from_snrc_codes_body_def Let_def)
  have b: "fst (define_from_kml_file_body example_env (aoi_init example_env None)
             ''boundary.kml'') = Inr True"
    by (simp add: define_from_kml_file_body_def aoi_init_def ex_defs gdf_empty_def Let_def
        kml_subfeuillets_def finalize_definition_def finalize_reproject_def truthy_def
        get_mtm_zone_from_bounds_def center_lon_def str_defs)
  show ?thesis
    using a b
      define_never_raises [of example_env "aoi_init example_env None" "[PyInt 21]"
        "''boundary.kml''"]
    by blast
qed

subsection \<open>Finalisation outside the zone bands\<close>

lemma finalize_reproject_ok:
  assumes "combined_gdf_epsg4326 self = Some g"
  shows "fst (finalize_reproject env self target) = reprojects_to env g target"
  using assms
  by (auto simp add: finalize_reproject_def reprojects_to_def gdf_empty_def
        split: option.splits list.splits sum.splits)

lemma kml_subfeuillets_keeps:
  "combined_gdf_epsg4326 (kml_subfeuillets env self geom) = combined_gdf_epsg4326 self
   \<and> bounds_epsg4326 (kml_subfeuillets env self geom) = bounds_epsg4326 self
   \<and> target_mtm_crs (kml_subfeuillets env self geom) = target_mtm_crs self
   \<and> use_custom_crs (kml_subfeuillets env self geom) = use_custom_crs self"
  by (simp add: kml_subfeuillets_def Let_def split: sum.splits)

lemma finalize_reproject_target:
  "target_mtm_crs (snd (finalize_reproject env self target)) = target_mtm_crs self"
  by (simp add: finalize_reproject_def split: option.splits list.splits sum.splits)

lemma outside_default:
  assumes "\<forall>band \<in> set mtm_bands. \<not> in_band (center_lon b) band"
  shows "get_mtm_zone_from_bounds b = ''32188''"
  using assms
  by (auto simp add: get_mtm_zone_from_bounds_def mtm_bands_def in_band_def Let_def)

lemma finalize_definition_outside:
  assumes g: "combined_gdf_epsg4326 self = Some g"
    and b: "bounds_epsg4326 self = Some b"
    and t: "target_mtm_crs self = None"
    and out: "\<forall>band \<in> set mtm_bands. \<not> in_band (center_lon b) band"
    and lib: "crs_to_epsg env ''EPSG:32188'' = Some ''32188''"
  shows "fst (finalize_definition env self) = reprojects_to env g ''EPSG:32188''
         \<and> target_mtm_crs (snd (finalize_definition env self)) = Some ''EPSG:32188''"
proof -
  have z: "get_mtm_zone_from_bounds b = ''32188''" using out by (rule outside_default)
  have d: "isdigit ''32188''" by (simp add: isdigit_def is_digit_def)
  have "finalize_definition env self =
          finalize_reproject env (self\<lparr>target_mtm_crs := Some ''EPSG:32188''\<rparr>) ''EPSG:32188''"
    using g b t z d lib by (simp add: finalize_definition_def Let_def truthy_def)
  then show ?thesis
    using g by (simp add: finalize_reproject_ok finalize_reproject_target)
qed

text \<open>
  C2, as the code has it. For a boundary file that is read to a frame with a non-empty
  first geometry, whose bounds have their centre longitude outside every band, with no
  custom reference: zone selection falls back to the default zone, the target reference
  is EPSG:32188, and the definition succeeds exactly when the reprojection of the frame
  to EPSG:32188 does. The reference library is assumed to know EPSG:32188.
\<close>

theorem kml_outside_bands_default_zone:
  assumes p: "kml_filepath \<noteq> []" "path_exists env kml_filepath"
    and k: "get_kml_bounds env kml_filepath ''EPSG:4326'' = Some g"
    and gg: "geometries g = Some geom # rest" "columns g \<noteq> []" "\<not> is_empty geom"
    and tb: "total_bounds env g = Inr b"
    and out: "\<forall>band \<in> set mtm_bands. \<not> in_band (center_lon b) band"
    and t: "target_mtm_crs self = None"
    and lib: "crs_to_epsg env ''EPSG:32188'' = Some ''32188''"
  shows "fst (define_from_kml_file env self kml_filepath) = Inr (reprojects_to env g ''EPSG:32188'')
         \<and> target_mtm_crs (snd (define_from_kml_file env self kml_filepath)) = Some ''EPSG:32188''"
proof -
  define s3 where "s3 = kml_subfeuillets env
      (self\<lparr>definition_type := Some ''KML'', input_references := [PathRef kml_filepath],
             combined_gdf_epsg4326 := Some g, combined_geometry_epsg4326 := Some geom,
             bounds_epsg4326 := Some b\<rparr>) geom"
  have body: "define_from_kml_file_body env self kml_filepath =
      (case finalize_definition env s3 of (ok, self4) \<Rightarrow> (Inr ok, self4))"
    using p k gg tb by (simp add: define_from_kml_file_body_def Let_def gdf_empty_def s3_def)
  have s3g: "combined_gdf_epsg4326 s3 = Some g" and s3b: "bounds_epsg4326 s3 = Some b"
    and s3t: "target_mtm_crs s3 = None"
    using t by (simp_all add: s3_def kml_subfeuillets_keeps)
  have f: "fst (finalize_definition env s3) = reprojects_to env g ''EPSG:32188''
         \<and> target_mtm_crs (snd (finalize_definition env s3)) = Some ''EPSG:32188''"
    using s3g s3b s3t out lib by (rule finalize_definition_outside)
  show ?thesis
    using f by (auto simp add: define_from_kml_file_def body handle_errors_def split: prod.splits)
qed

theorem kml_outside_bands_witness:
  "fst (define_from_kml_file example_env (aoi_init example_env None) ''boundary.kml'')
     = Inr (reprojects_to example_env example_kml_gdf ''EPSG:32188'')
   \<and> reprojects_to example_env example_kml_gdf ''EPSG:32188''"
proof -
  have out: "\<forall>band \<in> set mtm_bands. \<not> in_band (center_lon (2, 48, 3, 49)) band"
    by (simp add: mtm_bands_def in_band_def center_lon_def)
  have "fst (define_from_kml_file example_env (aoi_init example_env None) ''boundary.kml'')
          = Inr (reprojects_to example_env example_kml_gdf ''EPSG:32188'')
        \<and> target_mtm_crs (snd (define_from_kml_file example_env (aoi_init example_env None)
             ''boundary.kml'')) = Some ''EPSG:32188''"
  proof (rule kml_outside_bands_default_zone [where b = "(2, 48, 3, 49)"
          and geom = "example_geometry 10" and rest = "[]"])
    show "\<forall>band \<in> set mtm_bands. \<not> in_band (center_lon (2, 48, 3, 49)) band" by (rule out)
  qed (simp_all add: ex_defs aoi_init_def)
  moreover have "reprojects_to example_env example_kml_gdf ''EPSG:32188''"
    by (simp add: reprojects_to_def ex_defs str_defs)
  ultimately show ?thesis by simp
qed

text \<open>
  C2 as stated fails: a boundary around Paris (bounds \<^verbatim>\<open>(2, 48, 3, 49)\<close>, in no band) is
  finalised with success, in the default zone.
\<close>

theorem kml_outside_bands_counterexample:
  "find (in_band (center_lon (2, 48, 3, 49))) mtm_bands = None
   \<and> total_bounds example_env example_kml_gdf = Inr (2, 48, 3, 49)
   \<and> fst (define_from_kml_file example_env (aoi_init example_env None) ''boundary.kml'') = Inr True
   \<and> target_mtm_crs (snd (define_from_kml_file example_env (aoi_init example_env None) ''boundary.kml''))
       = Some ''EPSG:32188''"
  apply (intro conjI)
  apply (simp add: mtm_bands_def in_band_def center_lon_def)
  apply (simp add: example_env_def)
  apply (simp add: define_from_kml_file_def define_from_kml_file_body_def aoi_init_def ex_defs gdf_empty_def Let_def kml_subfeuillets_def finalize_definition_def finalize_reproject_def truthy_def handle_errors_def get_mtm_zone_from_bounds_def center_lon_def str_defs)
  apply (simp add: define_from_kml_file_def define_from_kml_file_body_def aoi_init_def ex_defs gdf_empty_def Let_def kml_subfeuillets_def finalize_definition_def finalize_reproject_def truthy_def handle_errors_def get_mtm_zone_from_bounds_def center_lon_def str_defs)
  done

subsection \<open>Vector normalisation\<close>

lemma handle_errors_Inr: "handle_errors t d (Inr v) = Inr v"
  by (simp add: handle_errors_def)




text \<open>
  C10. An input file that exists and is read to a frame without features gives
  \<^verbatim>\<open>(True, 0, 0)\<close>; the store is left as it was and no file is removed.
\<close>

theorem empty_input_success:
  assumes "v_exists env input_filepath"
    and "v_read_file env input_filepath = Inr g"
    and "geometries g = []"
  shows "returned (process_vector_data env store input_filepath aoi target gpkg layer del tmp)
           = Inr (True, 0, 0)
         \<and> store_after (process_vector_data env store input_filepath aoi target gpkg layer del tmp)
           = store
         \<and> removed_files
             (process_vector_data env store input_filepath aoi target gpkg layer del tmp) = []"
  using assms
  by (simp add: process_vector_data_def pv_stages_def pv_read_def gdf_empty_def pv_cleanup_def
        handle_errors_Inr)

theorem empty_input_success_witness:
  "returned (process_vector_data example_vector_env Map.empty ''none.geojson''
       (example_geometry 9) ''EPSG:32188'' ''out.gpkg'' ''roads'' True (Some ''tmp''))
     = Inr (True, 0, 0)
   \<and> store_after (process_vector_data example_vector_env Map.empty ''none.geojson''
       (example_geometry 9) ''EPSG:32188'' ''out.gpkg'' ''roads'' True (Some ''tmp''))
       (''out.gpkg'', ''roads'') = None"
proof -
  have a: "v_exists example_vector_env ''none.geojson''"
    by (simp add: example_vector_env_def)
  have b: "v_read_file example_vector_env ''none.geojson''
             = Inr \<lparr>crs = Some ''EPSG:4326'', columns = [''geometry''], geometries = []\<rparr>"
    by (simp add: example_vector_env_def)
  show ?thesis
    using empty_input_success [OF a b, of Map.empty "example_geometry 9" "''EPSG:32188''"
        "''out.gpkg''" "''roads''" True "Some ''tmp''"]
    by simp
qed

subsection \<open>Downloads whose size differs from the declared one\<close>

lemma utf8_ascii: "list_all (\<lambda>c. of_char c < (128::nat)) s \<Longrightarrow> utf8 (ustring_of s) = s"
  by (induction s) (simp_all add: utf8_def utf8_char_def ustring_of_def)

lemma fetch_tile_download:
  assumes "tile_column tile fc = Inr name" and "tile_column tile uc = Inr url"
    and "name \<noteq> []" and "url \<noteq> []"
    and "local_cache_dir self = [] \<or> files st (path_join (local_cache_dir self) (''MNT_'' @ name @ ''.tif'')) = None"
  shows "fetch_tile env self fc uc temp_dir st tile =
           download_tile env self st (rstrip_slash url @ ''/'' @ ''MNT_'' @ name @ ''.tif'')
             (path_join temp_dir (''MNT_'' @ name @ ''.tif'')) (''MNT_'' @ name @ ''.tif'')"
  using assms by (auto simp add: fetch_tile_def Let_def)

text \<open>
  C7, as the code has it. A tile whose download completes, with a declared content length
  that is not zero and differs from the number of bytes received, is not added to the
  fetched tiles nor to the temporary files; the removal of the partial file is attempted,
  and the file is gone when the removal succeeds, and still there when it raises (the
  exception is logged). \<^verbatim>\<open>fetch_data\<close> never raises.
\<close>

theorem mismatched_download_rejected:
  assumes cols: "tile_column tile fc = Inr name" "tile_column tile uc = Inr url"
      "name \<noteq> []" "url \<noteq> []"
    and miss: "local_cache_dir self = []
               \<or> files st (path_join (local_cache_dir self) (''MNT_'' @ name @ ''.tif'')) = None"
    and resp: "http_get env (rstrip_slash url @ ''/'' @ ''MNT_'' @ name @ ''.tif'') = Inr response"
    and opened: "open_error env (path_join temp_dir (''MNT_'' @ name @ ''.tif'')) = None"
    and declared: "content_length response = Declared n" "n \<noteq> 0"
    and complete: "stream_error response = None"
    and differs: "int (sum_list (chunks response)) \<noteq> n"
  shows "local_tif_paths (fetch_tile env self fc uc temp_dir st tile) = local_tif_paths st
     \<and> temp_files (fetch_tile env self fc uc temp_dir st tile) = temp_files st
     \<and> files (fetch_tile env self fc uc temp_dir st tile)
           (path_join temp_dir (''MNT_'' @ name @ ''.tif'')) =
         (case remove_error env (path_join temp_dir (''MNT_'' @ name @ ''.tif'')) of
            None \<Rightarrow> None
          | Some e \<Rightarrow> Some (sum_list (chunks response)))
     \<and> \<not> isl (fst (fetch_data env self aoi_object temp_dir st))"
proof -
  have "\<not> isl (fst (fetch_data env self aoi_object temp_dir st))"
    by (auto simp add: fetch_data_def fetch_data_body_def handle_errors_def Let_def
          split: prod.splits option.splits if_splits)
  moreover have "fetch_tile env self fc uc temp_dir st tile =
      (let p = path_join temp_dir (''MNT_'' @ name @ ''.tif'');
           st1 = st\<lparr>files := (files st)(p \<mapsto> sum_list (chunks response))\<rparr>
       in case remove_error env p of
            None \<Rightarrow> st1\<lparr>files := (files st1)(p := None)\<rparr>
          | Some e \<Rightarrow> st1)"
    unfolding fetch_tile_download [OF cols miss]
    using resp opened declared complete differs
    by (simp add: download_tile_def Let_def)
  ultimately show ?thesis
    by (simp add: Let_def split: option.splits)
qed

lemmas fex_defs = example_fetch_env_def example_source_def example_manifest_tile_def
  example_tile_def example_geometry_def empty_fetch_state_def example_aoi_def
  tile_column_def rstrip_slash_def path_join_def utf8_ascii

text \<open>
  Scenario E: 1000 bytes declared, 500 received, one tile in the AOI. The partial file
  is removed and \<^verbatim>\<open>fetch_data\<close> returns \<^verbatim>\<open>None\<close>, no tile fetched.
\<close>

theorem mismatched_download_witness:
  "fst (fetch_data example_fetch_env example_source (example_aoi [''A'']) ''tmp'' empty_fetch_state)
     = Inr None
   \<and> files (snd (fetch_data example_fetch_env example_source (example_aoi [''A'']) ''tmp''
        empty_fetch_state)) ''tmp/MNT_A.tif'' = None
   \<and> local_tif_paths (fetch_tile example_fetch_env example_source ''feuillet'' ''lidar_url''
        ''tmp'' empty_fetch_state (example_manifest_tile ''A'')) = []
   \<and> files (fetch_tile example_fetch_env example_source ''feuillet'' ''lidar_url''
        ''tmp'' empty_fetch_state (example_manifest_tile ''A'')) ''tmp/MNT_A.tif'' = None"
proof -
  have step: "local_tif_paths (fetch_tile example_fetch_env example_source ''feuillet''
        ''lidar_url'' ''tmp'' empty_fetch_state (example_manifest_tile ''A'')) = []
     \<and> files (fetch_tile example_fetch_env example_source ''feuillet'' ''lidar_url''
        ''tmp'' empty_fetch_state (example_manifest_tile ''A'')) ''tmp/MNT_A.tif'' = None"
    using mismatched_download_rejected [of "example_manifest_tile ''A''" "''feuillet''" "''A''"
        "''lidar_url''" "''https://tiles.example/A''" example_source empty_fetch_state
        example_fetch_env "\<lparr>content_length = Declared 1000, chunks = [500], stream_error = None\<rparr>"
        "''tmp''" 1000 "example_aoi [''A'']"]
    by (simp add: fex_defs)
  have "fetch_data example_fetch_env example_source (example_aoi [''A'']) ''tmp'' empty_fetch_state
      = (Inr None, fetch_tile example_fetch_env example_source ''feuillet'' ''lidar_url''
        ''tmp'' empty_fetch_state (example_manifest_tile ''A''))"
    using step
    by (simp add: fetch_data_def fetch_data_body_def mnt_is_enabled_def mnt_validate_config_def
        truthy_def handle_errors_def Let_def example_aoi_def example_source_def
        example_fetch_env_def)
  then show ?thesis using step by simp
qed

text \<open>
  C7 as stated fails in three ways, each with 500 bytes received: with a declared length
  of 0 the size is not checked and the tile is added; when the removal raises the partial
  file stays; when the stream raises after the bytes, the size check is never reached and
  the partial file stays.
\<close>

theorem mismatched_download_counterexample:
  "local_tif_paths (fetch_tile example_fetch_env example_source ''feuillet'' ''lidar_url'' ''tmp''
       empty_fetch_state (example_manifest_tile ''B'')) = [''tmp/MNT_B.tif'']
   \<and> files (fetch_tile example_fetch_env example_source ''feuillet'' ''lidar_url'' ''tmp''
       empty_fetch_state (example_manifest_tile ''C'')) ''tmp/MNT_C.tif'' = Some 500
   \<and> files (fetch_tile example_fetch_env example_source ''feuillet'' ''lidar_url'' ''tmp''
       empty_fetch_state (example_manifest_tile ''D'')) ''tmp/MNT_D.tif'' = Some 500"
  by (simp add: fetch_tile_def download_tile_def Let_def fex_defs)

subsection \<open>The AOI layer of a run\<close>

lemmas pex_defs = example_pipeline_def example_pipeline_env_def example_index_source_def
  example_roads_source_def example_hydro_source_def

lemma example_aoi_fields:
  "combined_gdf_epsg4326 (snd (define_from_kml_file example_env (aoi_init example_env None)
      ''boundary.kml'')) = Some example_kml_gdf"
  "target_mtm_crs (snd (define_from_kml_file example_env (aoi_init example_env None)
      ''boundary.kml'')) = Some ''EPSG:32188''"
  "combined_geometry_mtm (snd (define_from_kml_file example_env (aoi_init example_env None)
      ''boundary.kml'')) = Some (example_geometry 10)"
  "bounds_epsg4326 (snd (define_from_kml_file example_env (aoi_init example_env None)
      ''boundary.kml'')) = Some (2, 48, 3, 49)"
  by (simp_all add: define_from_kml_file_def define_from_kml_file_body_def aoi_init_def ex_defs
        gdf_empty_def Let_def kml_subfeuillets_def finalize_definition_def finalize_reproject_def
        truthy_def handle_errors_def get_mtm_zone_from_bounds_def center_lon_def str_defs)







subsection \<open>The order of the displayed summary\<close>

lemma insort_key_flag_False:
  assumes "\<forall>a \<in> set A. \<not> P a" and "\<forall>b \<in> set B. P b" and "\<not> P x"
  shows "insort_key (\<lambda>y. (P y, k y)) x (A @ B) = insort_key k x A @ B"
  using assms
proof (induction A)
  case Nil
  then show ?case by (cases B) simp_all
next
  case (Cons a A)
  then show ?case by simp
qed

lemma insort_key_flag_True:
  assumes "\<forall>a \<in> set A. \<not> P a" and "\<forall>b \<in> set B. P b" and "P x"
  shows "insort_key (\<lambda>y. (P y, k y)) x (A @ B) = A @ insort_key k x B"
  using assms
proof (induction A)
  case Nil
  then show ?case by (induction B) simp_all
next
  case (Cons a A)
  then show ?case by simp
qed


lemma sort_key_flag:
  "sort_key (\<lambda>y. (P y, k y)) xs =
     sort_key k (filter (\<lambda>y. \<not> P y) xs) @ sort_key k (filter P xs)"
proof (induction xs)
  case Nil
  then show ?case by simp
next
  case (Cons x xs)
  define A where "A = sort_key k (filter (\<lambda>y. \<not> P y) xs)"
  define B where "B = sort_key k (filter P xs)"
  have a: "\<forall>a \<in> set A. \<not> P a" and b: "\<forall>b \<in> set B. P b"
    by (simp_all add: A_def B_def)
  have ih: "sort_key (\<lambda>y. (P y, k y)) xs = A @ B"
    using Cons by (simp add: A_def B_def)
  have step: "sort_key (\<lambda>y. (P y, k y)) (x # xs) = insort_key (\<lambda>y. (P y, k y)) x (A @ B)"
    by (simp only: sort_key_simps ih)
  show ?case
  proof (cases "P x")
    case True
    have "sort_key (\<lambda>y. (P y, k y)) (x # xs) = A @ insort_key k x B"
      unfolding step using a b True by (rule insort_key_flag_True)
    then show ?thesis using True by (simp add: A_def B_def)
  next
    case False
    have "sort_key (\<lambda>y. (P y, k y)) (x # xs) = insort_key k x A @ B"
      unfolding step using a b False by (rule insort_key_flag_False)
    then show ?thesis using False by (simp add: A_def B_def)
  qed
qed

text \<open>
  C6, as the code has it. The displayed summary is the entries that are not the AOI
  index, in ascending order of priority and then of id, followed by the entries of the
  AOI index in the same order: the key's first component is true for the AOI index, and
  true sorts last. Entries with equal keys keep their order.
\<close>

theorem display_summary_order:
  "processing_summary (display_summary self) =
     sort_key priority_then_id
       (filter (\<lambda>x. \<not> is_aoi_index_entry x) (processing_summary self))
     @ sort_key priority_then_id (filter is_aoi_index_entry (processing_summary self))"
proof -
  have k: "summary_key = (\<lambda>y. (is_aoi_index_entry y, priority_then_id y))"
    by (simp add: summary_key_def is_aoi_index_entry_def priority_then_id_def fun_eq_iff)
  have "sort_key summary_key (processing_summary self) =
     sort_key priority_then_id
       (filter (\<lambda>x. \<not> is_aoi_index_entry x) (processing_summary self))
     @ sort_key priority_then_id (filter is_aoi_index_entry (processing_summary self))"
    unfolding k by (rule sort_key_flag)
  then show ?thesis
    by (cases "processing_summary self = []") (simp_all add: display_summary_def)
qed

text \<open>
  Three entries: the AOI index with priority 1, \<^verbatim>\<open>roads\<close> and \<^verbatim>\<open>hydro\<close> with priority
  2. The display order is \<^verbatim>\<open>hydro\<close>, \<^verbatim>\<open>roads\<close>, AOI index.
\<close>

theorem display_summary_order_witness:
  "map sum_id (processing_summary (display_summary
      ((example_pipeline [])\<lparr>processing_summary :=
          [initial_summary example_index_source, initial_summary example_roads_source,
           initial_summary example_hydro_source]\<rparr>)))
     = [''hydro'', ''roads'', ''snrc_index_local_50k'']"
proof -
  let ?xs = "[initial_summary example_index_source, initial_summary example_roads_source,
           initial_summary example_hydro_source]"
  have f: "filter (\<lambda>x. \<not> is_aoi_index_entry x) ?xs
             = [initial_summary example_roads_source, initial_summary example_hydro_source]"
    "filter is_aoi_index_entry ?xs = [initial_summary example_index_source]"
    by (simp_all add: is_aoi_index_entry_def initial_summary_def pex_defs)
  have k: "priority_then_id (initial_summary example_roads_source) = (2, ''roads'')"
    "priority_then_id (initial_summary example_hydro_source) = (2, ''hydro'')"
    by (simp_all add: priority_then_id_def initial_summary_def pex_defs)
  have c: "\<not> (''roads'' \<le> ''hydro'')"
    by simp
  have s: "sort_key priority_then_id
             [initial_summary example_roads_source, initial_summary example_hydro_source]
           = [initial_summary example_hydro_source, initial_summary example_roads_source]"
    using c by (simp add: k)
  have px: "processing_summary ((example_pipeline [])\<lparr>processing_summary := ?xs\<rparr>) = ?xs"
    by simp
  have s1: "sort_key priority_then_id [initial_summary example_index_source]
              = [initial_summary example_index_source]"
    by simp
  have "processing_summary
          (display_summary ((example_pipeline [])\<lparr>processing_summary := ?xs\<rparr>))
        = [initial_summary example_hydro_source, initial_summary example_roads_source]
          @ [initial_summary example_index_source]"
    using display_summary_order [of "(example_pipeline [])\<lparr>processing_summary := ?xs\<rparr>"]
    by (simp only: px f s s1)
  then show ?thesis
    by (simp add: initial_summary_def pex_defs)
qed

text \<open>
  C6 as stated fails: in a run over the AOI index (priority 1) and the road source
  (priority 2), the AOI record is first in the summary after the AOI step and last in
  the displayed and returned summary.
\<close>

theorem display_summary_counterexample:
  "map sum_id (processing_summary (process_aoi_layer example_pipeline_env
      (example_pipeline [example_index_source, example_roads_source])))
     = [''snrc_index_local_50k'']
   \<and> fst (run example_pipeline_env
        (example_pipeline [example_index_source, example_roads_source])) =
       Inr (Some (processing_summary (snd (run example_pipeline_env
        (example_pipeline [example_index_source, example_roads_source])))))
   \<and> map sum_id (processing_summary (snd (run example_pipeline_env
        (example_pipeline [example_index_source, example_roads_source]))))
     = [''roads'', ''snrc_index_local_50k'']
   \<and> map priority_level (processing_summary (snd (run example_pipeline_env
        (example_pipeline [example_index_source, example_roads_source]))))
     = [2, 1]"
proof -
  let ?p = "example_pipeline [example_index_source, example_roads_source]"
  define moved where "moved = example_kml_gdf\<lparr>crs := Some ''EPSG:32188''\<rparr>"
  define aoi_rec where
    "aoi_rec = (initial_summary example_index_source)\<lparr>sum_status := ''Success'',
         items_source_in_aoi_bbox := Num 1, items_processed_final := Num 1\<rparr>"
  define roads_rec where
    "roads_rec = (initial_summary example_roads_source)\<lparr>sum_status := ''Success'',
         items_source_in_aoi_bbox := Num 3,
         processed_items_in_aoi := Some (Txt ''2 (of 3)'')\<rparr>"
  define store1 where
    "store1 = (Map.empty :: gpkg_store)((''out/project.gpkg'', ''aoi_extent'') \<mapsto> moved)"
  define s1 where "s1 = ?p\<lparr>processing_summary := [aoi_rec], combined_store := store1\<rparr>"
  have e: "?p\<lparr>processing_summary := []\<rparr> = ?p"
    by (simp add: example_pipeline_def)
  have sv: "save_aoi_extent example_pipeline_env
              (snd (define_from_kml_file example_env (aoi_init example_env None) ''boundary.kml''))
              ''out/project.gpkg'' ''aoi_extent'' Map.empty
            = (''Success'', 1, 1, store1)"
    by (simp add: save_aoi_extent_def example_aoi_fields example_pipeline_env_def gdf_empty_def
        gdf_len_def example_kml_gdf_def store1_def moved_def Let_def)
  have a: "process_aoi_layer example_pipeline_env ?p = s1"
    by (simp add: process_aoi_layer_def pex_defs sv [unfolded example_pipeline_env_def]
        s1_def aoi_rec_def initial_summary_def)
  have i: "run_initialised ?p"
    by (simp add: run_initialised_def example_pipeline_def truthy_def example_aoi_fields)
  have l: "list_of_datasources ?p = [example_index_source, example_roads_source]"
    by (simp add: example_pipeline_def)
  have f1: "run_source example_pipeline_env s1 example_index_source = Inr s1"
    by (simp add: run_source_def Let_def example_index_source_def)
  have f2: "run_source example_pipeline_env s1 example_roads_source =
      Inr (append_summary s1 roads_rec)"
    by (simp add: run_source_def Let_def example_aoi_fields example_roads_source_def
        example_pipeline_env_def example_pipeline_def s1_def roads_rec_def append_summary_def)
  have rs: "run_sources example_pipeline_env s1 [example_index_source, example_roads_source]
      = (None, append_summary s1 roads_rec)"
    by (simp add: f1 f2)
  have k: "summary_key aoi_rec = (True, 1, ''snrc_index_local_50k'')"
    "summary_key roads_rec = (False, 2, ''roads'')"
    by (simp_all add: summary_key_def aoi_rec_def roads_rec_def initial_summary_def pex_defs)
  have d: "processing_summary (display_summary (append_summary s1 roads_rec))
      = [roads_rec, aoi_rec]"
    by (simp add: display_summary_def append_summary_def s1_def k)
  have r: "run_body example_pipeline_env ?p =
      (Inr (Some [roads_rec, aoi_rec]), display_summary (append_summary s1 roads_rec))"
    unfolding run_body_def e a l rs using i d
    by (simp add: example_pipeline_env_def)
  have "map sum_id (processing_summary (process_aoi_layer example_pipeline_env ?p))
     = [''snrc_index_local_50k'']"
    unfolding a by (simp add: s1_def aoi_rec_def initial_summary_def example_index_source_def)
  moreover have "fst (run example_pipeline_env ?p) =
       Inr (Some (processing_summary (snd (run example_pipeline_env ?p))))"
    unfolding run_def r by (simp add: handle_errors_def d)
  moreover have "map sum_id (processing_summary (snd (run example_pipeline_env ?p)))
     = [''roads'', ''snrc_index_local_50k'']"
    unfolding run_def r
    by (simp add: d) (simp add: aoi_rec_def roads_rec_def initial_summary_def pex_defs)
  moreover have "map priority_level (processing_summary (snd (run example_pipeline_env ?p)))
     = [2, 1]"
    unfolding run_def r
    by (simp add: d) (simp add: aoi_rec_def roads_rec_def initial_summary_def pex_defs)
  ultimately show ?thesis by simp
qed

end
